theory Spec2Isabelle
  imports Main "HOL-Library.AList" "HOL-Library.Word"
begin

section \<open>Python values used by the pipeline\<close>

text \<open>
  A Python \<open>str\<close> is a sequence of code points. A \<open>string\<close> here is read as the
  sequence of code points of a Python string whose code points lie below 256 (the
  Latin-1 range, which holds every character of the status tables of
  \<open>utils/status_mapping.py\<close>): the \<open>char\<close> with value \<open>n\<close> is the code point \<open>n\<close>.
  \<open>py_lower\<close> and \<open>py_strip\<close> are \<open>str.lower\<close> and \<open>str.strip\<close> on that range.
\<close>

datatype error =
    ValueError string
  | KeyError string
  | TypeError string
  | AttributeError string
  | OverflowError string

definition py_isspace :: "char \<Rightarrow> bool" where
  "py_isspace c =
     (let n = (of_char c :: nat)
      in (9 \<le> n \<and> n \<le> 13) \<or> (28 \<le> n \<and> n \<le> 32) \<or> n = 133 \<or> n = 160)"

definition py_lower_char :: "char \<Rightarrow> char" where
  "py_lower_char c =
     (let n = (of_char c :: nat)
      in if (65 \<le> n \<and> n \<le> 90) \<or> (192 \<le> n \<and> n \<le> 222 \<and> n \<noteq> 215)
         then char_of (n + 32) else c)"

definition py_lower :: "string \<Rightarrow> string" where
  "py_lower s = map py_lower_char s"

definition py_strip :: "string \<Rightarrow> string" where
  "py_strip s = rev (dropWhile py_isspace (rev (dropWhile py_isspace s)))"

text \<open>Truthiness of an optional string: \<open>None\<close> and \<open>''\<close> are falsy.\<close>

fun truthy_str :: "string option \<Rightarrow> bool" where
  "truthy_str None = False"
| "truthy_str (Some s) = (s \<noteq> [])"

text \<open>\<open>str(x)\<close> of an optional string: \<open>str(None)\<close> is \<open>'None'\<close>.\<close>

fun str_opt :: "string option \<Rightarrow> string" where
  "str_opt None = ''None''"
| "str_opt (Some s) = s"

section \<open>Status normalisation (\<open>function_shipment_tracking/utils/status_mapping.py\<close>)\<close>

text \<open>
  The two module-level dictionaries, as association lists in the order of the source
  (a Python \<open>dict\<close> iterates in insertion order). \<open>a_acute\<close> and \<open>o_acute\<close> are the
  code points U+00E1 and U+00F3.
\<close>

definition a_acute :: char where
  "a_acute = char_of (225 :: nat)"

definition o_acute :: char where
  "o_acute = char_of (243 :: nat)"

definition en_transito :: string where
  "en_transito = ''en tr'' @ [a_acute] @ ''nsito''"

definition excepcion :: string where
  "excepcion = ''excepci'' @ [o_acute] @ ''n''"

definition PLUGUP_STATUS_MAPPING :: "(string \<times> string list) list" where
  "PLUGUP_STATUS_MAPPING =
    [(''pending'', [''pending'', ''pendiente'', ''created'', ''acknowledged'']),
     (''ready_to_ship'', [''ready_to_ship'', ''lista para despacho'', ''handling'', ''ready_to_ship'']),
     (''dispatched'', [''shipped'', ''enviado'', en_transito, ''shipped'']),
     (''in_transit'', [''shipped'', en_transito, ''transit'', ''in_transit'']),
     (''out_for_delivery'', [''out_for_delivery'', ''en reparto'']),
     (''delivered'', [''delivered'', ''entregada'', ''entregado'', ''delivered'']),
     (''delivery_failed'', [''not_delivered'', ''failed_delivery'', excepcion, ''delivery_failed'']),
     (''cancelled'', [''cancelled'', ''canceled'', ''cancelada'', ''cancelado'', ''cancelled'']),
     (''returned'', [''returned'', ''devuelto'', ''returned''])]"

definition MARKETPLACE_STATUS_MAPPING :: "(string \<times> (string \<times> string) list) list" where
  "MARKETPLACE_STATUS_MAPPING =
    [(''meli'',
        [(''pending'', ''pending''),
         (''handling'', ''ready_to_ship''),
         (''ready_to_ship'', ''ready_to_ship''),
         (''shipped'', ''dispatched''),
         (''delivered'', ''delivered''),
         (''not_delivered'', ''delivery_failed''),
         (''cancelled'', ''cancelled'')]),
     (''fala'',
        [(''pending'', ''pending''),
         (''ready_to_ship'', ''ready_to_ship''),
         (''shipped'', ''dispatched''),
         (''delivered'', ''delivered''),
         (''canceled'', ''cancelled''),
         (''returned'', ''returned'')]),
     (''walm'',
        [(''created'', ''pending''),
         (''acknowledged'', ''ready_to_ship''),
         (''shipped'', ''dispatched''),
         (''delivered'', ''delivered''),
         (''cancelled'', ''cancelled'')]),
     (''cenc'',
        [(''pendiente'', ''pending''),
         (''lista para despacho'', ''ready_to_ship''),
         (''enviado'', ''dispatched''),
         (en_transito, ''in_transit''),
         (''entregada'', ''delivered''),
         (''entregado'', ''delivered''),
         (''cancelada'', ''cancelled''),
         (''cancelado'', ''cancelled''),
         (''devuelto'', ''returned'')])]"

text \<open>\<open>d.get(k, {})\<close> on a dictionary of dictionaries.\<close>

definition get_or_empty :: "('k \<times> ('a \<times> 'b) list) list \<Rightarrow> 'k \<Rightarrow> ('a \<times> 'b) list" where
  "get_or_empty d k = (case map_of d k of None \<Rightarrow> [] | Some m \<Rightarrow> m)"

text \<open>
  The loop \<open>for plugup_status, raw_statuses in PLUGUP_STATUS_MAPPING.items()\<close> of
  \<open>normalize_status\<close>, with the fallback that follows it.
\<close>

fun general_mapping :: "(string \<times> string list) list \<Rightarrow> string \<Rightarrow> string" where
  "general_mapping [] clean_status = ''pending''"
| "general_mapping ((plugup_status, raw_statuses) # rest) clean_status =
     (if clean_status \<in> set (map py_lower raw_statuses) then plugup_status
      else general_mapping rest clean_status)"

text \<open>
  \<open>normalize_status(raw_status, marketplace)\<close>. An argument is \<open>None\<close> when the caller
  passes Python's \<open>None\<close>.
\<close>

definition normalize_status :: "string option \<Rightarrow> string option \<Rightarrow> string" where
  "normalize_status raw_status marketplace =
     (if \<not> truthy_str raw_status \<or> \<not> truthy_str marketplace then ''pending''
      else
        let clean_status = py_strip (py_lower (str_opt raw_status));
            clean_marketplace = py_strip (py_lower (str_opt marketplace));
            marketplace_mapping = get_or_empty MARKETPLACE_STATUS_MAPPING clean_marketplace
        in case map_of marketplace_mapping clean_status of
             Some normalized \<Rightarrow> normalized
           | None \<Rightarrow> general_mapping PLUGUP_STATUS_MAPPING clean_status)"

definition get_supported_statuses :: "string list" where
  "get_supported_statuses = map fst PLUGUP_STATUS_MAPPING"

text \<open>
  \<open>validate_status_mapping()\<close>: the inner loop over one marketplace's entries, the outer
  loop over the marketplaces, and the function itself. The first invalid entry raises.
\<close>

fun validate_entries :: "string list \<Rightarrow> string \<Rightarrow> (string \<times> string) list \<Rightarrow> error + unit" where
  "validate_entries valid marketplace [] = Inr ()"
| "validate_entries valid marketplace ((raw_status, plugup_status) # rest) =
     (if plugup_status \<notin> set valid
      then Inl (ValueError (''Invalid PlugUp status '' @ [CHR 0x27] @ plugup_status @ [CHR 0x27]
                  @ '' in '' @ marketplace @ '' mapping for '' @ [CHR 0x27] @ raw_status @ [CHR 0x27]))
      else validate_entries valid marketplace rest)"

fun validate_marketplaces :: "string list \<Rightarrow> (string \<times> (string \<times> string) list) list \<Rightarrow> error + unit" where
  "validate_marketplaces valid [] = Inr ()"
| "validate_marketplaces valid ((marketplace, mapping) # rest) =
     (case validate_entries valid marketplace mapping of
        Inl e \<Rightarrow> Inl e
      | Inr _ \<Rightarrow> validate_marketplaces valid rest)"

definition validate_status_mapping :: "error + bool" where
  "validate_status_mapping =
     (case validate_marketplaces (map fst PLUGUP_STATUS_MAPPING) MARKETPLACE_STATUS_MAPPING of
        Inl e \<Rightarrow> Inl e
      | Inr _ \<Rightarrow> Inr True)"

text \<open>
  The condition of the specification under which a status is unrecognised: the cleaned
  status is no key of the table of the cleaned marketplace and no alias of the general
  table.
\<close>

definition in_marketplace_table :: "string \<Rightarrow> string \<Rightarrow> bool" where
  "in_marketplace_table s m =
     (py_strip (py_lower s) \<in>
        set (map fst (get_or_empty MARKETPLACE_STATUS_MAPPING (py_strip (py_lower m)))))"

definition in_general_table :: "string \<Rightarrow> bool" where
  "in_general_table s =
     list_ex (\<lambda>(plugup_status, raw_statuses). py_strip (py_lower s) \<in> set (map py_lower raw_statuses))
       PLUGUP_STATUS_MAPPING"

section \<open>Delivery clients\<close>

text \<open>\<open>str(n)\<close> of a Python integer: its decimal digits, with a leading minus sign.\<close>

fun str_nat :: "nat \<Rightarrow> string" where
  "str_nat n =
     (if n < 10 then [char_of (48 + n)]
      else str_nat (n div 10) @ [char_of (48 + n mod 10)])"

definition str_int :: "int \<Rightarrow> string" where
  "str_int i = (if i < 0 then CHR ''-'' # str_nat (nat (- i)) else str_nat (nat i))"

text \<open>
  A JSON value as \<open>response.json()\<close> returns it: \<open>None\<close>, a \<open>bool\<close>, an \<open>int\<close>, a
  \<open>float\<close> (by its 64 bits), a \<open>str\<close>, a \<open>list\<close>, or a \<open>dict\<close> (its items in order, the
  keys distinct). Nothing restricts the body of a response to the shape the dispatcher
  expects.
\<close>

type_synonym float64 = "64 word"

datatype json =
    JNull
  | JBool bool
  | JInt int
  | JFloat float64
  | JStr string
  | JList "json list"
  | JObj "(string \<times> json) list"

text \<open>
  The empty dictionary \<open>{}\<close>, and the truth value of a JSON value: false for \<open>None\<close>,
  \<open>False\<close>, a zero (a float is zero when all its bits but the sign are) and an empty
  string, list or dictionary.
\<close>

definition empty_response :: json where
  "empty_response = JObj []"

fun json_truthy :: "json \<Rightarrow> bool" where
  "json_truthy JNull = False"
| "json_truthy (JBool b) = b"
| "json_truthy (JInt n) = (n \<noteq> 0)"
| "json_truthy (JFloat f) = (take_bit 63 f \<noteq> 0)"
| "json_truthy (JStr s) = (s \<noteq> [])"
| "json_truthy (JList xs) = (xs \<noteq> [])"
| "json_truthy (JObj d) = (d \<noteq> [])"

text \<open>
  What one call of \<open>requests.post\<close> does, by the handler of the source that takes it:
  a response (status code, text, and the parsed body, \<open>None\<close> when \<open>response.json()\<close>
  raises \<open>ValueError\<close>), or an exception. \<open>Timeout\<close> is every
  \<open>requests.exceptions.Timeout\<close> (connect timeouts included, since that handler comes
  first), \<open>ConnectionError\<close> every other \<open>requests.exceptions.ConnectionError\<close>,
  \<open>RequestException\<close> every other \<open>requests\<close> exception, \<open>OtherException\<close> the rest;
  the string is \<open>str(e)\<close>.
\<close>

datatype outcome =
    Response int string "json option"
  | Timeout
  | ConnectionError string
  | RequestException string
  | OtherException string

text \<open>
  The remote endpoint: the outcome of a request, given how many requests were issued
  before it and its body.
\<close>

type_synonym 'b network = "nat \<Rightarrow> 'b \<Rightarrow> outcome"

text \<open>
  The effects of a client: the bodies posted so far, oldest first, and the arguments of
  the calls of \<open>time.sleep\<close>, oldest first.
\<close>

record 'b world =
  requests :: "'b list"
  sleeps :: "nat list"

text \<open>
  The fields of \<open>SupabaseService\<close> that the delivery reads (\<open>Config.SUPABASE_TIMEOUT\<close>,
  \<open>Config.MAX_RETRY_ATTEMPTS\<close>, \<open>Config.BATCH_SIZE\<close>: each the \<open>int\<close> of an environment
  variable, so any integer).
\<close>

record supabase_service =
  timeout :: int
  max_retries :: int
  batch_size :: int

text \<open>
  \<open>SupabaseService._send_batch_to_supabase(events, retry_count)\<close>. \<open>retry_count\<close> starts
  at 0 and is only ever incremented, so it is a natural number; logging is left out.
\<close>

function send_batch_to_supabase ::
  "supabase_service \<Rightarrow> 'e list network \<Rightarrow> 'e list \<Rightarrow> nat \<Rightarrow> 'e list world
     \<Rightarrow> (bool \<times> string \<times> json) \<times> 'e list world" where
  "send_batch_to_supabase self net events retry_count w =
     (case net (length (requests w)) events of
        Response status_code text js \<Rightarrow>
          if status_code = 200 then
            (case js of
               Some response_data \<Rightarrow>
                 ((True, ''Success: '' @ str_int status_code, response_data),
                  w\<lparr>requests := requests w @ [events]\<rparr>)
             | None \<Rightarrow>
                 ((True, ''Success: '' @ str_int status_code, empty_response),
                  w\<lparr>requests := requests w @ [events]\<rparr>))
          else if status_code \<ge> 500 \<and> int retry_count < max_retries self then
            send_batch_to_supabase self net events (retry_count + 1)
              (w\<lparr>requests := requests w @ [events], sleeps := sleeps w @ [2 ^ retry_count]\<rparr>)
          else
            ((False, ''Failed: '' @ str_int status_code @ '' - '' @ take 200 text, empty_response),
             w\<lparr>requests := requests w @ [events]\<rparr>)
      | Timeout \<Rightarrow>
          if int retry_count < max_retries self then
            send_batch_to_supabase self net events (retry_count + 1)
              (w\<lparr>requests := requests w @ [events], sleeps := sleeps w @ [2 ^ retry_count]\<rparr>)
          else
            ((False, ''Timeout after '' @ str_int (timeout self) @ ''s'', empty_response),
             w\<lparr>requests := requests w @ [events]\<rparr>)
      | ConnectionError e \<Rightarrow>
          ((False, ''Connection error: '' @ e, empty_response),
           w\<lparr>requests := requests w @ [events]\<rparr>)
      | RequestException e \<Rightarrow>
          ((False, ''Request exception: '' @ e, empty_response),
           w\<lparr>requests := requests w @ [events]\<rparr>)
      | OtherException e \<Rightarrow>
          ((False, ''Unexpected exception: '' @ e, empty_response),
           w\<lparr>requests := requests w @ [events]\<rparr>))"
  by pat_completeness auto
termination
  by (relation "measure (\<lambda>(self, net, events, retry_count, w). nat (max_retries self - int retry_count))")
     auto

text \<open>The fields of \<open>WebhookService\<close> that the delivery reads.\<close>

record webhook_service =
  webhook_timeout :: int
  webhook_max_retries :: int

text \<open>
  \<open>WebhookService._send_single_order(order, retry_count)\<close>. Its last handler is
  \<open>except Exception\<close>, which takes every exception that is not a timeout.
\<close>

function send_single_order ::
  "webhook_service \<Rightarrow> 'o network \<Rightarrow> 'o \<Rightarrow> nat \<Rightarrow> 'o world \<Rightarrow> (bool \<times> string) \<times> 'o world" where
  "send_single_order self net order' retry_count w =
     (case net (length (requests w)) order' of
        Response status_code text js \<Rightarrow>
          if status_code \<in> set [200, 201] then
            ((True, ''Success: '' @ str_int status_code), w\<lparr>requests := requests w @ [order']\<rparr>)
          else if status_code \<ge> 500 \<and> int retry_count < webhook_max_retries self then
            send_single_order self net order' (retry_count + 1)
              (w\<lparr>requests := requests w @ [order'], sleeps := sleeps w @ [2 ^ retry_count]\<rparr>)
          else
            ((False, ''Failed: '' @ str_int status_code @ '' - '' @ take 100 text),
             w\<lparr>requests := requests w @ [order']\<rparr>)
      | Timeout \<Rightarrow>
          if int retry_count < webhook_max_retries self then
            send_single_order self net order' (retry_count + 1)
              (w\<lparr>requests := requests w @ [order'], sleeps := sleeps w @ [2 ^ retry_count]\<rparr>)
          else
            ((False, ''Timeout after '' @ str_int (webhook_timeout self) @ ''s''),
             w\<lparr>requests := requests w @ [order']\<rparr>)
      | ConnectionError e \<Rightarrow>
          ((False, ''Exception: '' @ e), w\<lparr>requests := requests w @ [order']\<rparr>)
      | RequestException e \<Rightarrow>
          ((False, ''Exception: '' @ e), w\<lparr>requests := requests w @ [order']\<rparr>)
      | OtherException e \<Rightarrow>
          ((False, ''Exception: '' @ e), w\<lparr>requests := requests w @ [order']\<rparr>))"
  by pat_completeness auto
termination
  by (relation "measure (\<lambda>(self, net, order', retry_count, w).
        nat (webhook_max_retries self - int retry_count))") auto

text \<open>
  The world after \<open>k\<close> attempts at posting \<open>body\<close>, the attempt of index \<open>i\<close> followed by
  a wait of \<open>2 ^ i\<close>.
\<close>

definition backoff :: "'b \<Rightarrow> nat \<Rightarrow> 'b world \<Rightarrow> 'b world" where
  "backoff body k w =
     w\<lparr>requests := requests w @ replicate k body, sleeps := sleeps w @ map (\<lambda>i. 2 ^ i) [0..<k]\<rparr>"

text \<open>
  Endpoints for examples: one that always answers the same, and one that answers by a
  script, request after request, and by \<open>dflt\<close> once the script is over.
\<close>

definition always :: "outcome \<Rightarrow> 'b network" where
  "always out n body = out"

definition scripted :: "outcome list \<Rightarrow> outcome \<Rightarrow> 'b network" where
  "scripted outs dflt n body = (if n < length outs then outs ! n else dflt)"

definition world0 :: "'b world" where
  "world0 = \<lparr>requests = [], sleeps = []\<rparr>"

definition service0 :: supabase_service where
  "service0 = \<lparr>timeout = 30, max_retries = 3, batch_size = 100\<rparr>"

definition webhook0 :: webhook_service where
  "webhook0 = \<lparr>webhook_timeout = 30, webhook_max_retries = 3\<rparr>"

section \<open>Batch dispatcher (\<open>SupabaseService.send_tracking_events\<close>)\<close>

text \<open>
  The counters of the dispatcher start as integers and take what the responses add to
  them, so they are Python numbers: an \<open>int\<close> or a \<open>float\<close>. The arithmetic of floats is
  a parameter: the sum of two floats, and the conversion of an \<open>int\<close> to a float, which
  raises \<open>OverflowError\<close> (here \<open>None\<close>) when the integer is too large.
\<close>

datatype pynum = NInt int | NFloat float64

record py_float =
  float_add :: "float64 \<Rightarrow> float64 \<Rightarrow> float64"
  float_of_int :: "int \<Rightarrow> float64 option"

text \<open>\<open>a + b\<close> on two Python numbers.\<close>

definition py_add :: "py_float \<Rightarrow> pynum \<Rightarrow> pynum \<Rightarrow> error + pynum" where
  "py_add fp a b =
     (case a of
        NInt x \<Rightarrow>
          (case b of
             NInt y \<Rightarrow> Inr (NInt (x + y))
           | NFloat y \<Rightarrow>
               (case float_of_int fp x of
                  None \<Rightarrow> Inl (OverflowError ''int too large to convert to float'')
                | Some fx \<Rightarrow> Inr (NFloat (float_add fp fx y))))
      | NFloat x \<Rightarrow>
          (case b of
             NInt y \<Rightarrow>
               (case float_of_int fp y of
                  None \<Rightarrow> Inl (OverflowError ''int too large to convert to float'')
                | Some fy \<Rightarrow> Inr (NFloat (float_add fp x fy)))
           | NFloat y \<Rightarrow> Inr (NFloat (float_add fp x y))))"

text \<open>
  A JSON value as a number (\<open>True\<close> and \<open>False\<close> are the integers 1 and 0), and what two
  values of a response add to a counter: \<open>count += (a + b)\<close> and \<open>count += a\<close> raise
  \<open>TypeError\<close> unless the values are numbers (two strings or two lists are joined by
  \<open>+\<close>, and adding the result to the counter raises). The text of these messages is not
  modelled.
\<close>

fun to_num :: "json \<Rightarrow> pynum option" where
  "to_num (JBool b) = Some (NInt (if b then 1 else 0))"
| "to_num (JInt n) = Some (NInt n)"
| "to_num (JFloat f) = Some (NFloat f)"
| "to_num _ = None"

definition add_to_count :: "py_float \<Rightarrow> pynum \<Rightarrow> json \<Rightarrow> error + pynum" where
  "add_to_count fp count a =
     (case to_num a of
        None \<Rightarrow> Inl (TypeError ''unsupported operand type(s) for +='')
      | Some x \<Rightarrow> py_add fp count x)"

definition add_sum_to_count :: "py_float \<Rightarrow> pynum \<Rightarrow> json \<Rightarrow> json \<Rightarrow> error + pynum" where
  "add_sum_to_count fp count a b =
     (case to_num a of
        None \<Rightarrow> Inl (TypeError ''unsupported operand type(s) for +'')
      | Some x \<Rightarrow>
          (case to_num b of
             None \<Rightarrow> Inl (TypeError ''unsupported operand type(s) for +'')
           | Some y \<Rightarrow>
               (case py_add fp x y of
                  Inl e \<Rightarrow> Inl e
                | Inr s \<Rightarrow> py_add fp count s)))"

text \<open>
  \<open>value.get(key, default)\<close>, which only a dictionary has, and the items that
  \<open>list.extend(value)\<close> appends: the elements of a list, the characters of a string, the
  keys of a dictionary; any other value is not iterable.
\<close>

definition py_get :: "json \<Rightarrow> string \<Rightarrow> json \<Rightarrow> error + json" where
  "py_get v key dflt =
     (case v of
        JObj d \<Rightarrow> Inr (case map_of d key of None \<Rightarrow> dflt | Some x \<Rightarrow> x)
      | _ \<Rightarrow> Inl (AttributeError ''object has no attribute get''))"

definition py_iter :: "json \<Rightarrow> error + json list" where
  "py_iter v =
     (case v of
        JList xs \<Rightarrow> Inr xs
      | JStr s \<Rightarrow> Inr (map (\<lambda>c. JStr [c]) s)
      | JObj d \<Rightarrow> Inr (map (\<lambda>kv. JStr (fst kv)) d)
      | _ \<Rightarrow> Inl (TypeError ''object is not iterable''))"

text \<open>
  The dataclass \<open>SupabaseResult\<close> and the dictionary that \<open>to_dict\<close> makes of it. The
  list of errors holds the strings the dispatcher writes and whatever the responses
  contribute.
\<close>

record supabase_result =
  total :: int
  successful :: pynum
  failed :: pynum
  errors :: "json list"



text \<open>
  \<open>range(0, n, step)\<close> as the list it iterates over: a zero step raises, a negative step
  gives the empty range.
\<close>

definition py_range :: "nat \<Rightarrow> int \<Rightarrow> error + nat list" where
  "py_range n step =
     (if step = 0 then Inl (ValueError ''range() arg 3 must not be zero'')
      else if step < 0 then Inr []
      else Inr (map (\<lambda>k. k * nat step) [0..<(n + nat step - 1) div nat step]))"

text \<open>\<open>_chunk_events\<close>: the slice \<open>events[i:i + batch_size]\<close> for each \<open>i\<close> of the range.\<close>

definition chunk_events :: "supabase_service \<Rightarrow> 'e list \<Rightarrow> error + 'e list list" where
  "chunk_events self events =
     (case py_range (length events) (batch_size self) of
        Inl e \<Rightarrow> Inl e
      | Inr indices \<Rightarrow> Inr (map (\<lambda>i. take (nat (batch_size self)) (drop i events)) indices))"

text \<open>
  The branch of the loop for a successful delivery with a truthy \<open>response_data\<close>
  (lines 236 to 246), statement by statement; each may raise, and nothing in
  \<open>send_tracking_events\<close> catches it.
\<close>

definition apply_summary ::
  "py_float \<Rightarrow> json \<Rightarrow> pynum \<times> pynum \<times> json list \<Rightarrow> error + (pynum \<times> pynum \<times> json list)" where
  "apply_summary fp response_data acc =
     (case acc of (success_count, error_count, errs) \<Rightarrow>
       (case py_get response_data ''created'' (JInt 0) of Inl e \<Rightarrow> Inl e | Inr batch_created \<Rightarrow>
       (case py_get response_data ''updated'' (JInt 0) of Inl e \<Rightarrow> Inl e | Inr batch_updated \<Rightarrow>
       (case py_get response_data ''skipped'' (JInt 0) of Inl e \<Rightarrow> Inl e | Inr batch_skipped \<Rightarrow>
       (case py_get response_data ''errors'' (JInt 0) of Inl e \<Rightarrow> Inl e | Inr batch_errors \<Rightarrow>
       (case add_sum_to_count fp success_count batch_created batch_updated of
          Inl e \<Rightarrow> Inl e | Inr success_count' \<Rightarrow>
       (case add_to_count fp error_count batch_errors of Inl e \<Rightarrow> Inl e | Inr error_count' \<Rightarrow>
       (case py_get response_data ''details'' (JObj []) of Inl e \<Rightarrow> Inl e | Inr details \<Rightarrow>
       (case py_get details ''error_messages'' JNull of Inl e \<Rightarrow> Inl e | Inr error_messages \<Rightarrow>
          if json_truthy error_messages then
            (case py_iter error_messages of
               Inl e \<Rightarrow> Inl e
             | Inr items \<Rightarrow> Inr (success_count', error_count', errs @ items))
          else Inr (success_count', error_count', errs))))))))))"

text \<open>
  The body of the loop over \<open>enumerate(event_batches)\<close>: from the three accumulators
  \<open>success_count\<close>, \<open>error_count\<close> and \<open>errors\<close> and the world before the batch to the
  accumulators after it, or the exception it raises, and the world after it.
\<close>

definition process_batch ::
  "py_float \<Rightarrow> supabase_service \<Rightarrow> 'e list network \<Rightarrow> nat \<times> 'e list
     \<Rightarrow> (pynum \<times> pynum \<times> json list) \<times> 'e list world
     \<Rightarrow> (error + (pynum \<times> pynum \<times> json list)) \<times> 'e list world" where
  "process_batch fp self net ib st =
     (case (ib, st) of ((batch_index, batch), ((success_count, error_count, errs), w)) \<Rightarrow>
        (case send_batch_to_supabase self net batch 0 w of
           ((success, message, response_data), w') \<Rightarrow>
             if success then
               if json_truthy response_data then
                 (apply_summary fp response_data (success_count, error_count, errs), w')
               else
                 (case py_add fp success_count (NInt (int (length batch))) of
                    Inl e \<Rightarrow> (Inl e, w')
                  | Inr success_count' \<Rightarrow> (Inr (success_count', error_count, errs), w'))
             else
               (case py_add fp error_count (NInt (int (length batch))) of
                  Inl e \<Rightarrow> (Inl e, w')
                | Inr error_count' \<Rightarrow>
                    (Inr (success_count, error_count',
                          errs @ [JStr (''Batch '' @ str_int (int batch_index + 1) @ '': '' @ message)]),
                     w'))))"

text \<open>The loop: an exception of the body ends it, and the batches that remain are not sent.\<close>

fun process_batches ::
  "py_float \<Rightarrow> supabase_service \<Rightarrow> 'e list network \<Rightarrow> (nat \<times> 'e list) list
     \<Rightarrow> (error + (pynum \<times> pynum \<times> json list)) \<times> 'e list world
     \<Rightarrow> (error + (pynum \<times> pynum \<times> json list)) \<times> 'e list world" where
  "process_batches fp self net [] st = st"
| "process_batches fp self net (ib # rest) st =
     (case st of
        (Inl e, w) \<Rightarrow> (Inl e, w)
      | (Inr acc, w) \<Rightarrow> process_batches fp self net rest (process_batch fp self net ib (acc, w)))"

text \<open>
  \<open>send_tracking_events(events)\<close>: the result, or the exception that leaves the function
  (the \<open>ValueError\<close> of a zero batch size, or what the loop raises), and the world after
  it.
\<close>

definition send_tracking_events ::
  "py_float \<Rightarrow> supabase_service \<Rightarrow> 'e list network \<Rightarrow> 'e list \<Rightarrow> 'e list world
     \<Rightarrow> (error + supabase_result) \<times> 'e list world" where
  "send_tracking_events fp self net events w =
     (if events = [] then
        (Inr \<lparr>total = 0, successful = NInt 0, failed = NInt 0, errors = []\<rparr>, w)
      else
        case chunk_events self events of
          Inl e \<Rightarrow> (Inl e, w)
        | Inr event_batches \<Rightarrow>
            (case process_batches fp self net (enumerate 0 event_batches)
                    (Inr (NInt 0, NInt 0, []), w) of
               (Inl e, w') \<Rightarrow> (Inl e, w')
             | (Inr (success_count, error_count, errs), w') \<Rightarrow>
                 (Inr \<lparr>total = int (length events), successful = success_count,
                       failed = error_count, errors = errs\<rparr>, w')))"

text \<open>
  The response summary of the wire contract: an object whose counts, where present, are
  integers and whose \<open>details.error_messages\<close>, where present, is a list of strings; the
  count under a key and the messages of such an object; and a body that is no JSON at all
  or such a summary.
\<close>

definition int_or_absent :: "(string \<times> json) list \<Rightarrow> string \<Rightarrow> bool" where
  "int_or_absent d key =
     (case map_of d key of None \<Rightarrow> True | Some (JInt n) \<Rightarrow> True | Some _ \<Rightarrow> False)"

definition count_of :: "(string \<times> json) list \<Rightarrow> string \<Rightarrow> int" where
  "count_of d key = (case map_of d key of Some (JInt n) \<Rightarrow> n | _ \<Rightarrow> 0)"

fun is_jstr :: "json \<Rightarrow> bool" where
  "is_jstr (JStr s) = True"
| "is_jstr _ = False"

definition messages_ok :: "(string \<times> json) list \<Rightarrow> bool" where
  "messages_ok d =
     (case map_of d ''details'' of
        None \<Rightarrow> True
      | Some (JObj dd) \<Rightarrow>
          (case map_of dd ''error_messages'' of
             None \<Rightarrow> True
           | Some (JList xs) \<Rightarrow> list_all is_jstr xs
           | Some _ \<Rightarrow> False)
      | Some _ \<Rightarrow> False)"

definition messages_of :: "(string \<times> json) list \<Rightarrow> json list" where
  "messages_of d =
     (case map_of d ''details'' of
        Some (JObj dd) \<Rightarrow> (case map_of dd ''error_messages'' of Some (JList xs) \<Rightarrow> xs | _ \<Rightarrow> [])
      | _ \<Rightarrow> [])"

definition typed_summary :: "json \<Rightarrow> bool" where
  "typed_summary js =
     (case js of
        JObj d \<Rightarrow>
          int_or_absent d ''created'' \<and> int_or_absent d ''updated'' \<and> int_or_absent d ''skipped''
          \<and> int_or_absent d ''errors'' \<and> messages_ok d
      | _ \<Rightarrow> False)"

definition typed_body :: "json option \<Rightarrow> bool" where
  "typed_body body = (case body of None \<Rightarrow> True | Some js \<Rightarrow> typed_summary js)"


definition float_add0 :: "float64 \<Rightarrow> float64 \<Rightarrow> float64" where
  "float_add0 a b = a"

definition float_of_int0 :: "int \<Rightarrow> float64 option" where
  "float_of_int0 n = None"

definition float0 :: py_float where
  "float0 = \<lparr>float_add = float_add0, float_of_int = float_of_int0\<rparr>"




section \<open>Rows, timestamps and payloads\<close>

text \<open>
  A \<open>pandas.Timestamp\<close> by its fields; \<open>ts_tzinfo\<close> is \<open>None\<close> for a timestamp without
  timezone and otherwise the offset from UTC, in minutes.
\<close>

record timestamp =
  ts_year :: nat
  ts_month :: nat
  ts_day :: nat
  ts_hour :: nat
  ts_minute :: nat
  ts_second :: nat
  ts_microsecond :: nat
  ts_nanosecond :: nat
  ts_tzinfo :: "int option"

text \<open>
  A cell of a row of the data frame: \<open>None\<close>, the float \<open>NaN\<close>, \<open>NaT\<close>, a string, an
  integer, a \<open>pandas.Timestamp\<close>, or a \<open>datetime.datetime\<close> that is no \<open>Timestamp\<close>
  (by its fields, the nanosecond being 0). A row (\<open>pandas.Series\<close>) maps column names to
  cells.
\<close>

datatype cell =
    CNone
  | CNaN
  | CNaT
  | CStr string
  | CInt int
  | CTimestamp timestamp
  | CDatetime timestamp

type_synonym row = "string \<rightharpoonup> cell"

text \<open>\<open>f"{n:0wd}"\<close> for a natural number: zero-padded to at least \<open>w\<close> digits.\<close>

definition pad :: "nat \<Rightarrow> nat \<Rightarrow> string" where
  "pad w n = replicate (w - length (str_nat n)) (CHR ''0'') @ str_nat n"

text \<open>
  \<open>Timestamp.isoformat(sep, timespec)\<close> for the two values of \<open>timespec\<close> the source uses:
  the default \<open>'auto'\<close>, which prints the fraction of a second when it is not zero (six
  digits, nine when there are nanoseconds), and \<open>'seconds'\<close>, which never prints it.
\<close>

datatype timespec = Auto | Seconds

definition iso_base :: "char \<Rightarrow> timestamp \<Rightarrow> string" where
  "iso_base sep ts =
     pad 4 (ts_year ts) @ ''-'' @ pad 2 (ts_month ts) @ ''-'' @ pad 2 (ts_day ts) @ [sep]
     @ pad 2 (ts_hour ts) @ '':'' @ pad 2 (ts_minute ts) @ '':'' @ pad 2 (ts_second ts)"

definition iso_fraction :: "timestamp \<Rightarrow> string" where
  "iso_fraction ts =
     (if ts_nanosecond ts \<noteq> 0 then
        (if ts_microsecond ts \<noteq> 0 then ''.'' @ pad 6 (ts_microsecond ts) @ pad 3 (ts_nanosecond ts)
         else ''.'' @ pad 9 (ts_nanosecond ts))
      else if ts_microsecond ts \<noteq> 0 then ''.'' @ pad 6 (ts_microsecond ts)
      else [])"

definition iso_offset :: "int option \<Rightarrow> string" where
  "iso_offset tz =
     (case tz of
        None \<Rightarrow> []
      | Some m \<Rightarrow> (if m < 0 then ''-'' else ''+'')
                  @ pad 2 (nat \<bar>m\<bar> div 60) @ '':'' @ pad 2 (nat \<bar>m\<bar> mod 60))"

definition isoformat :: "char \<Rightarrow> timespec \<Rightarrow> timestamp \<Rightarrow> string" where
  "isoformat sep spec ts =
     iso_base sep ts @ (case spec of Auto \<Rightarrow> iso_fraction ts | Seconds \<Rightarrow> [])
     @ iso_offset (ts_tzinfo ts)"

text \<open>\<open>pd.isna(value)\<close> and \<open>str(value)\<close> on a cell.\<close>

fun isna :: "cell \<Rightarrow> bool" where
  "isna CNone = True"
| "isna CNaN = True"
| "isna CNaT = True"
| "isna _ = False"

fun str_cell :: "cell \<Rightarrow> string" where
  "str_cell CNone = ''None''"
| "str_cell CNaN = ''nan''"
| "str_cell CNaT = ''NaT''"
| "str_cell (CStr s) = s"
| "str_cell (CInt n) = str_int n"
| "str_cell (CTimestamp ts) = isoformat (CHR '' '') Auto ts"
| "str_cell (CDatetime ts) = isoformat (CHR '' '') Auto ts"

text \<open>\<open>row[key]\<close>, which raises \<open>KeyError\<close> on a missing column, and \<open>row.get(key, default)\<close>.\<close>

definition getitem :: "row \<Rightarrow> string \<Rightarrow> error + cell" where
  "getitem r key = (case r key of None \<Rightarrow> Inl (KeyError key) | Some v \<Rightarrow> Inr v)"

definition get_default :: "row \<Rightarrow> string \<Rightarrow> cell \<Rightarrow> cell" where
  "get_default r key dflt = (case r key of None \<Rightarrow> dflt | Some v \<Rightarrow> v)"

text \<open>
  The functions of pandas and of the timezone database that the formatters call:
  \<open>pd.to_datetime(value, errors="coerce", utc=False)\<close> (\<open>None\<close> for \<open>NaT\<close>), and
  \<open>ts.tz_localize(CLT)\<close> and \<open>ts.tz_convert(CLT)\<close> for \<open>CLT = ZoneInfo("America/Santiago")\<close>
  (\<open>None\<close> when the call raises, as \<open>tz_localize\<close> does on a wall-clock time that the zone
  skips or repeats).
\<close>

record pandas =
  to_datetime :: "cell \<Rightarrow> timestamp option"
  tz_localize_clt :: "timestamp \<Rightarrow> timestamp option"
  tz_convert_clt :: "timestamp \<Rightarrow> timestamp option"

text \<open>\<open>pd.Timestamp(value)\<close> for a \<open>datetime\<close>, and \<open>ts.tz_localize('UTC')\<close>.\<close>

definition timestamp_of_datetime :: "timestamp \<Rightarrow> timestamp" where
  "timestamp_of_datetime d = d\<lparr>ts_nanosecond := 0\<rparr>"

definition tz_localize_utc :: "timestamp \<Rightarrow> timestamp" where
  "tz_localize_utc ts = ts\<lparr>ts_tzinfo := Some 0\<rparr>"

text \<open>
  The payloads sent to the endpoints: JSON values, an object being the list of its
  entries in the order of insertion.
\<close>

datatype pval =
    PNull
  | PStr string
  | PInt int
  | PDict "(string \<times> pval) list"

type_synonym payload = "(string \<times> pval) list"

section \<open>Shipment tracking mapper (\<open>function_shipment_tracking/services/transformer_service.py\<close>)\<close>

text \<open>\<open>ShipmentTransformerService._format_timestamp(timestamp_value)\<close>.\<close>

definition format_timestamp :: "pandas \<Rightarrow> cell \<Rightarrow> string option" where
  "format_timestamp pd timestamp_value =
     (if isna timestamp_value then None
      else
        case (case timestamp_value of
                CTimestamp ts \<Rightarrow> Some ts
              | CDatetime d \<Rightarrow> Some (timestamp_of_datetime d)
              | _ \<Rightarrow> to_datetime pd timestamp_value) of
          None \<Rightarrow> None
        | Some ts \<Rightarrow>
            Some (isoformat (CHR ''T'') Auto
                    (if ts_tzinfo ts = None then tz_localize_utc ts else ts)))"

text \<open>\<open>company_mapping.py\<close>: the table and \<open>get_company_uuid\<close>.\<close>

definition COMPANY_NAME_TO_UUID :: "(string \<times> string) list" where
  "COMPANY_NAME_TO_UUID = [(''bamo_company'', ''c12585ee-c8f4-4103-b7f0-37bd62401a65'')]"

definition get_company_uuid :: "string \<Rightarrow> error + string" where
  "get_company_uuid company_name =
     (case map_of COMPANY_NAME_TO_UUID company_name of
        None \<Rightarrow>
          Inl (ValueError (''Company '' @ [CHR 0x27] @ company_name @ [CHR 0x27]
            @ '' not found in mapping. Available companies: ['' @ [CHR 0x27] @ ''bamo_company''
            @ [CHR 0x27] @ '']. Please update COMPANY_NAME_TO_UUID in company_mapping.py''))
      | Some uuid \<Rightarrow> Inr uuid)"

text \<open>
  The loop over \<open>optional_fields.items()\<close> of \<open>_build_tracking_event\<close>; every entry of
  that dictionary maps a name to itself.
\<close>

definition optional_fields :: "string list" where
  "optional_fields = [''event_location'', ''courier_name'', ''tracking_number'', ''notes'']"

fun add_optional_fields :: "row \<Rightarrow> string list \<Rightarrow> payload \<Rightarrow> payload" where
  "add_optional_fields r [] event = event"
| "add_optional_fields r (field # rest) event =
     (let v = get_default r field CNone
      in if \<not> isna v \<and> v \<noteq> CNone \<and> py_strip (str_cell v) \<noteq> []
         then add_optional_fields r rest (AList.update field (PStr (py_strip (str_cell v))) event)
         else add_optional_fields r rest event)"

text \<open>\<open>ShipmentTransformerService._build_tracking_event(row)\<close>.\<close>

definition build_tracking_event :: "pandas \<Rightarrow> row \<Rightarrow> error + payload" where
  "build_tracking_event pd r =
     (case getitem r ''event_status'' of Inl e \<Rightarrow> Inl e | Inr event_status \<Rightarrow>
      case getitem r ''marketplace'' of Inl e \<Rightarrow> Inl e | Inr marketplace \<Rightarrow>
      let normalized_status =
            normalize_status (Some (str_cell event_status)) (Some (str_cell marketplace))
      in
      case getitem r ''event_timestamp'' of Inl e \<Rightarrow> Inl e | Inr raw_timestamp \<Rightarrow>
      case (case format_timestamp pd raw_timestamp of
              None \<Rightarrow> None
            | Some s \<Rightarrow> if s = [] then None else Some s) of
        None \<Rightarrow>
          (case getitem r ''marketplace_order_id'' of Inl e \<Rightarrow> Inl e | Inr order_id \<Rightarrow>
             Inl (ValueError (''Invalid event_timestamp for order '' @ str_cell order_id)))
      | Some event_timestamp \<Rightarrow>
      case getitem r ''company_id'' of Inl e \<Rightarrow> Inl e | Inr company_id \<Rightarrow>
      case get_company_uuid (str_cell company_id) of
        Inl (ValueError msg) \<Rightarrow>
          (case getitem r ''marketplace_order_id'' of Inl e \<Rightarrow> Inl e | Inr order_id \<Rightarrow>
             Inl (ValueError (''Company mapping error for order '' @ str_cell order_id @ '': '' @ msg)))
      | Inl e \<Rightarrow> Inl e
      | Inr company_uuid \<Rightarrow>
      case getitem r ''marketplace_order_id'' of Inl e \<Rightarrow> Inl e | Inr order_id \<Rightarrow>
        Inr (add_optional_fields r optional_fields
               [(''marketplace_order_id'', PStr (str_cell order_id)),
                (''marketplace'', PStr (py_lower (str_cell marketplace))),
                (''company_id'', PStr company_uuid),
                (''event_status'', PStr normalized_status),
                (''event_timestamp'', PStr event_timestamp)]))"

section \<open>Order mapper (\<open>functions/utils/datetime_utils.py\<close>, \<open>functions/services/transformer_service.py\<close>)\<close>

text \<open>\<open>to_iso8601_clt(value)\<close>.\<close>

definition to_iso8601_clt :: "pandas \<Rightarrow> cell \<Rightarrow> string option" where
  "to_iso8601_clt pd v =
     (if v = CNone \<or> v = CNaN then None
      else if v = CNaT then None
      else
        case (case v of
                CTimestamp ts \<Rightarrow> Some ts
              | CDatetime d \<Rightarrow> Some (timestamp_of_datetime d)
              | _ \<Rightarrow> to_datetime pd v) of
          None \<Rightarrow> None
        | Some ts \<Rightarrow>
            (case (if ts_tzinfo ts \<noteq> None then tz_convert_clt pd ts else tz_localize_clt pd ts) of
               None \<Rightarrow> None
             | Some ts' \<Rightarrow> Some (isoformat (CHR ''T'') Seconds ts')))"

text \<open>
  \<open>int(value)\<close> on a cell. A string is an integer literal when, stripped, it is an optional
  sign followed by decimal digits, with single underscores allowed between digits.
\<close>

definition is_digit :: "char \<Rightarrow> bool" where
  "is_digit c = (48 \<le> (of_char c :: nat) \<and> (of_char c :: nat) \<le> 57)"

fun no_double_underscore :: "string \<Rightarrow> bool" where
  "no_double_underscore (a # b # rest) =
     (\<not> (a = CHR ''_'' \<and> b = CHR ''_'') \<and> no_double_underscore (b # rest))"
| "no_double_underscore _ = True"

definition valid_digits :: "string \<Rightarrow> bool" where
  "valid_digits s =
     (s \<noteq> [] \<and> is_digit (hd s) \<and> is_digit (last s)
      \<and> list_all (\<lambda>c. is_digit c \<or> c = CHR ''_'') s \<and> no_double_underscore s)"

definition digits_value :: "string \<Rightarrow> nat" where
  "digits_value s = foldl (\<lambda>acc c. 10 * acc + ((of_char c :: nat) - 48)) 0 (filter is_digit s)"

definition int_of_str :: "string \<Rightarrow> int option" where
  "int_of_str s =
     (case py_strip s of
        [] \<Rightarrow> None
      | c # rest \<Rightarrow>
          if c = CHR ''-'' then (if valid_digits rest then Some (- int (digits_value rest)) else None)
          else if c = CHR ''+'' then (if valid_digits rest then Some (int (digits_value rest)) else None)
          else if valid_digits (c # rest) then Some (int (digits_value (c # rest)))
          else None)"

fun py_int :: "cell \<Rightarrow> error + int" where
  "py_int (CInt n) = Inr n"
| "py_int (CStr s) =
     (case int_of_str s of
        None \<Rightarrow> Inl (ValueError (''invalid literal for int() with base 10: '' @ s))
      | Some n \<Rightarrow> Inr n)"
| "py_int CNaN = Inl (ValueError ''cannot convert float NaN to integer'')"
| "py_int _ = Inl (TypeError ''int() argument must be a string, a bytes-like object or a real number'')"

text \<open>
  \<open>OrderTransformerService._build_sku_dict(group)\<close>: what one row writes (its key and its
  entry), the loop over the rows, and the function. \<open>sku_dict[seller_sku] = ...\<close> on a
  Python dictionary is \<open>AList.update\<close>: a new key goes to the end, an old key keeps its
  place and takes the new value.
\<close>

definition build_item :: "row \<Rightarrow> error + (string \<times> pval)" where
  "build_item r =
     (case getitem r ''seller_sku'' of Inl e \<Rightarrow> Inl e | Inr seller_sku \<Rightarrow>
      case getitem r ''quantity'' of Inl e \<Rightarrow> Inl e | Inr quantity \<Rightarrow>
      case py_int quantity of Inl e \<Rightarrow> Inl e | Inr q \<Rightarrow>
      case getitem r ''sku_name'' of Inl e \<Rightarrow> Inl e | Inr sku_name \<Rightarrow>
      case getitem r ''market_place_match_id'' of Inl e \<Rightarrow> Inl e | Inr match_id \<Rightarrow>
        Inr (str_cell seller_sku,
             PDict [(''quantity'', PInt q),
                    (''name'', PStr (str_cell sku_name)),
                    (''market_place_match_id'', PStr (str_cell match_id)),
                    (''order_item_id'', PStr (str_cell (get_default r ''order_item_id'' (CStr []))))]))"

fun build_sku_loop :: "row list \<Rightarrow> payload \<Rightarrow> error + payload" where
  "build_sku_loop [] sku_dict = Inr sku_dict"
| "build_sku_loop (r # rest) sku_dict =
     (case build_item r of
        Inl e \<Rightarrow> Inl e
      | Inr (seller_sku, item) \<Rightarrow> build_sku_loop rest (AList.update seller_sku item sku_dict))"

definition build_sku_dict :: "row list \<Rightarrow> error + payload" where
  "build_sku_dict grp = build_sku_loop grp []"

text \<open>\<open>OrderTransformerService._build_webhook_payload(order_id, first_row, sku_dict)\<close>.\<close>

definition opt_pval :: "string option \<Rightarrow> pval" where
  "opt_pval s = (case s of None \<Rightarrow> PNull | Some x \<Rightarrow> PStr x)"

definition build_webhook_payload :: "pandas \<Rightarrow> cell \<Rightarrow> row \<Rightarrow> payload \<Rightarrow> error + payload" where
  "build_webhook_payload pd order_id first_row sku_dict =
     (let order_created_raw = get_default first_row ''order_created_at'' CNone;
          shipping_promise_raw = get_default first_row ''shipping_promise_date'' CNone;
          order_created_iso = to_iso8601_clt pd order_created_raw;
          shipping_promise_iso = to_iso8601_clt pd shipping_promise_raw
      in
      case order_created_iso of
        None \<Rightarrow>
          Inl (ValueError (''Missing required date field: order_created_at for order ''
                 @ str_cell order_id))
      | Some created \<Rightarrow>
      case getitem first_row ''shipping_id'' of Inl e \<Rightarrow> Inl e | Inr shipping_id \<Rightarrow>
      case getitem first_row ''status'' of Inl e \<Rightarrow> Inl e | Inr status \<Rightarrow>
      case getitem first_row ''shipping_status'' of Inl e \<Rightarrow> Inl e | Inr shipping_status \<Rightarrow>
      case getitem first_row ''logistic_type'' of Inl e \<Rightarrow> Inl e | Inr logistic_type \<Rightarrow>
      case getitem first_row ''marketplace'' of Inl e \<Rightarrow> Inl e | Inr marketplace \<Rightarrow>
        Inr [(''order'', PStr (str_cell order_id)),
             (''shipping_id'', PStr (str_cell shipping_id)),
             (''status'', PStr (str_cell status)),
             (''shipping_status'', PStr (str_cell shipping_status)),
             (''logistic_type'', PStr (str_cell logistic_type)),
             (''market_place'', PStr (str_cell marketplace)),
             (''order_created_at'', PStr created),
             (''shipping_promise_date'', opt_pval shipping_promise_iso),
             (''sku'', PDict sku_dict)])"

text \<open>
  The body of the loop of \<open>transform_to_webhooks\<close> over the groups of \<open>df.groupby('order_id')\<close>:
  the payload of a group, or nothing when an exception is caught (\<open>group.iloc[0]\<close> raises
  on an empty group), and the loop over the groups that pandas hands out.
\<close>

definition transform_group :: "pandas \<Rightarrow> cell \<times> row list \<Rightarrow> payload option" where
  "transform_group pd og =
     (case og of (order_id, grp) \<Rightarrow>
        (case grp of
           [] \<Rightarrow> None
         | first_row # _ \<Rightarrow>
             (case build_sku_dict grp of
                Inl e \<Rightarrow> None
              | Inr sku_dict \<Rightarrow>
                  (case build_webhook_payload pd order_id first_row sku_dict of
                     Inl e \<Rightarrow> None
                   | Inr webhook \<Rightarrow> Some webhook))))"

definition transform_groups :: "pandas \<Rightarrow> (cell \<times> row list) list \<Rightarrow> payload list" where
  "transform_groups pd groups = List.map_filter (transform_group pd) groups"

text \<open>The key that a row writes in the line-item dictionary: \<open>str(row['seller_sku'])\<close>.\<close>

definition seller_sku_of :: "row \<Rightarrow> string" where
  "seller_sku_of r = str_cell (get_default r ''seller_sku'' CNone)"

text \<open>
  Fixtures for examples: two timestamps without timezone, a pandas whose parser accepts
  one string and whose timezone has the fixed offset -03:00, and rows of either flow.
\<close>

definition localize_minus3 :: "timestamp \<Rightarrow> timestamp option" where
  "localize_minus3 ts = Some (ts\<lparr>ts_tzinfo := Some (- 180)\<rparr>)"

definition new_year :: timestamp where
  "new_year = \<lparr>ts_year = 2024, ts_month = 1, ts_day = 1, ts_hour = 0, ts_minute = 0,
               ts_second = 0, ts_microsecond = 0, ts_nanosecond = 0, ts_tzinfo = None\<rparr>"

definition parse_new_year :: "cell \<Rightarrow> timestamp option" where
  "parse_new_year v = (if v = CStr ''2024-01-01T00:00:00'' then Some new_year else None)"

definition pandas0 :: pandas where
  "pandas0 = \<lparr>to_datetime = parse_new_year, tz_localize_clt = localize_minus3,
              tz_convert_clt = localize_minus3\<rparr>"

definition half_milli :: timestamp where
  "half_milli = new_year\<lparr>ts_microsecond := 500\<rparr>"

definition item_row :: "string \<Rightarrow> int \<Rightarrow> string \<Rightarrow> row" where
  "item_row sku q item_id =
     map_of [(''order_id'', CStr ''A1''), (''seller_sku'', CStr sku), (''quantity'', CInt q),
             (''sku_name'', CStr ''Widget''), (''market_place_match_id'', CStr ''M1''),
             (''order_item_id'', CStr item_id), (''shipping_id'', CInt 77),
             (''status'', CStr ''paid''), (''shipping_status'', CStr ''ready''),
             (''logistic_type'', CStr ''flex''), (''marketplace'', CStr ''meli''),
             (''order_created_at'', CTimestamp new_year)]"

definition tracking_row :: "cell \<Rightarrow> cell \<Rightarrow> row" where
  "tracking_row ts notes =
     map_of [(''marketplace_order_id'', CStr ''A1''), (''marketplace'', CStr ''meli''),
             (''company_id'', CStr ''bamo_company''), (''event_status'', CStr ''shipped''),
             (''event_timestamp'', ts), (''courier_name'', CStr ''  Correos  ''),
             (''tracking_number'', CInt 42), (''notes'', notes)]"

text \<open>
  The condition of the specification on an optional field of a row: the column is there
  and its value is neither missing nor blank; and the trimmed text of the value.
\<close>

definition present_non_blank :: "row \<Rightarrow> string \<Rightarrow> bool" where
  "present_non_blank r field =
     (case r field of
        None \<Rightarrow> False
      | Some v \<Rightarrow> \<not> isna v \<and> py_strip (str_cell v) \<noteq> [])"

definition trimmed :: "row \<Rightarrow> string \<Rightarrow> string" where
  "trimmed r field = py_strip (str_cell (get_default r field CNone))"

section \<open>Properties of status normalisation\<close>

lemma validate_entries_ok:
  "validate_entries valid m es = Inr () \<Longrightarrow> (r, p) \<in> set es \<Longrightarrow> p \<in> set valid"
  by (induction es) (auto split: if_splits)

lemma validate_marketplaces_ok:
  "validate_marketplaces valid ms = Inr () \<Longrightarrow> (m, es) \<in> set ms \<Longrightarrow> (r, p) \<in> set es
     \<Longrightarrow> p \<in> set valid"
  by (induction ms) (auto split: sum.splits dest: validate_entries_ok)

lemma validate_marketplaces_passes:
  "validate_marketplaces (map fst PLUGUP_STATUS_MAPPING) MARKETPLACE_STATUS_MAPPING = Inr ()"
  by (simp add: PLUGUP_STATUS_MAPPING_def MARKETPLACE_STATUS_MAPPING_def)

lemma general_mapping_range:
  "general_mapping tbl s \<in> insert ''pending'' (fst ` set tbl)"
  by (induction tbl s rule: general_mapping.induct) auto

lemma pending_supported: "''pending'' \<in> set (map fst PLUGUP_STATUS_MAPPING)"
  by (simp add: PLUGUP_STATUS_MAPPING_def)

lemma get_or_empty_mem:
  assumes "(r, p) \<in> set (get_or_empty d k)"
  shows "\<exists>m. (k, m) \<in> set d \<and> (r, p) \<in> set m"
proof (cases "map_of d k")
  case None
  then show ?thesis using assms by (simp add: get_or_empty_def)
next
  case (Some m)
  then have "(k, m) \<in> set d" by (rule map_of_SomeD)
  moreover have "get_or_empty d k = m" using Some by (simp add: get_or_empty_def)
  ultimately show ?thesis using assms by auto
qed

lemma marketplace_values_supported:
  "map_of (get_or_empty MARKETPLACE_STATUS_MAPPING k) s = Some p
     \<Longrightarrow> p \<in> set (map fst PLUGUP_STATUS_MAPPING)"
  using validate_marketplaces_ok [OF validate_marketplaces_passes]
  by (blast dest: map_of_SomeD get_or_empty_mem)

text \<open>
  Claim C10. The import-time check \<open>validate_status_mapping()\<close> passes on the tables of the
  module, and for every pair of arguments (absent ones included) the status returned by
  \<open>normalize_status\<close> is a key of \<open>PLUGUP_STATUS_MAPPING\<close>.
\<close>

theorem normalize_status_canonical:
  "validate_status_mapping = Inr True \<and>
   normalize_status raw_status marketplace \<in> set get_supported_statuses"
proof
  show "validate_status_mapping = Inr True"
    by (simp add: validate_status_mapping_def validate_marketplaces_passes)
  show "normalize_status raw_status marketplace \<in> set get_supported_statuses"
  proof (cases "\<not> truthy_str raw_status \<or> \<not> truthy_str marketplace")
    case True
    then show ?thesis
      using pending_supported by (simp add: normalize_status_def get_supported_statuses_def)
  next
    case False
    let ?s = "py_strip (py_lower (str_opt raw_status))"
    let ?m = "py_strip (py_lower (str_opt marketplace))"
    show ?thesis
    proof (cases "map_of (get_or_empty MARKETPLACE_STATUS_MAPPING ?m) ?s")
      case None
      then have "normalize_status raw_status marketplace = general_mapping PLUGUP_STATUS_MAPPING ?s"
        using False by (simp add: normalize_status_def)
      then show ?thesis
        using pending_supported general_mapping_range [of PLUGUP_STATUS_MAPPING ?s]
        by (simp add: get_supported_statuses_def insert_absorb)
    next
      case (Some p)
      then have "normalize_status raw_status marketplace = p"
        using False by (simp add: normalize_status_def)
      then show ?thesis
        using marketplace_values_supported [OF Some] by (simp add: get_supported_statuses_def)
    qed
  qed
qed

lemma general_mapping_miss:
  "\<not> list_ex (\<lambda>(p, raws). s \<in> set (map py_lower raws)) tbl \<Longrightarrow> general_mapping tbl s = ''pending''"
  by (induction tbl s rule: general_mapping.induct) auto

lemma map_of_miss: "k \<notin> set (map fst al) \<Longrightarrow> map_of al k = None"
  by (simp add: map_of_eq_None_iff)

text \<open>
  Claim C6. When an argument is missing or empty, or when the cleaned status is neither a
  key of the table of the cleaned marketplace nor an alias of the general table,
  \<open>normalize_status\<close> returns \<open>'pending'\<close>. The function is total and has no failing
  branch: it never raises.
\<close>

theorem normalize_status_default:
  assumes "\<not> truthy_str raw_status \<or> \<not> truthy_str marketplace \<or>
           (\<not> in_marketplace_table (str_opt raw_status) (str_opt marketplace) \<and>
            \<not> in_general_table (str_opt raw_status))"
  shows "normalize_status raw_status marketplace = ''pending''"
  using assms
  unfolding normalize_status_def in_marketplace_table_def in_general_table_def Let_def
  by (auto simp: map_of_miss general_mapping_miss simp del: set_map)


theorem normalize_status_default_witness:
  "normalize_status (Some ''lost in space'') (Some ''meli'') = ''pending'' \<and>
   normalize_status None (Some ''meli'') = ''pending'' \<and>
   normalize_status (Some ''delivered'') (Some '''') = ''pending''"
  using normalize_status_default [of "Some ''lost in space''" "Some ''meli''"]
        normalize_status_default [of None "Some ''meli''"]
        normalize_status_default [of "Some ''delivered''" "Some ''''"]
  by (simp add: in_marketplace_table_def in_general_table_def get_or_empty_def py_strip_def py_lower_def
      py_lower_char_def py_isspace_def MARKETPLACE_STATUS_MAPPING_def PLUGUP_STATUS_MAPPING_def
      en_transito_def excepcion_def a_acute_def o_acute_def)

theorem normalize_status_canonical_witness:
  "normalize_status (Some ''  SHIPPED '') (Some ''Meli '') \<in> set get_supported_statuses"
  using normalize_status_canonical [of "Some ''  SHIPPED ''" "Some ''Meli ''"] by simp

section \<open>Properties of the delivery clients\<close>

lemma send_batch_attempts:
  "\<exists>k. 1 \<le> k \<and> int k \<le> max 0 (max_retries self - int retry_count) + 1 \<and>
       requests (snd (send_batch_to_supabase self net events retry_count w))
         = requests w @ replicate k events \<and>
       sleeps (snd (send_batch_to_supabase self net events retry_count w))
         = sleeps w @ map (\<lambda>i. 2 ^ i) [retry_count..<retry_count + (k - 1)]"
proof (induction self net events retry_count w rule: send_batch_to_supabase.induct)
  case (1 self net events retry_count w)
  let ?w1 = "w\<lparr>requests := requests w @ [events], sleeps := sleeps w @ [2 ^ retry_count]\<rparr>"
  let ?retry = "send_batch_to_supabase self net events (retry_count + 1) ?w1"
  have stop: "\<exists>k. 1 \<le> k \<and> int k \<le> max 0 (max_retries self - int retry_count) + 1 \<and>
       requests (w\<lparr>requests := requests w @ [events]\<rparr>) = requests w @ replicate k events \<and>
       sleeps (w\<lparr>requests := requests w @ [events]\<rparr>)
         = sleeps w @ map (\<lambda>i. 2 ^ i) [retry_count..<retry_count + (k - 1)]"
    by (rule exI [of _ 1]) simp
  have again: "\<exists>k. 1 \<le> k \<and> int k \<le> max 0 (max_retries self - int retry_count) + 1 \<and>
       requests (snd ?retry) = requests w @ replicate k events \<and>
       sleeps (snd ?retry) = sleeps w @ map (\<lambda>i. 2 ^ i) [retry_count..<retry_count + (k - 1)]"
    if ih: "\<exists>k. 1 \<le> k \<and> int k \<le> max 0 (max_retries self - int (retry_count + 1)) + 1 \<and>
       requests (snd ?retry) = requests ?w1 @ replicate k events \<and>
       sleeps (snd ?retry) = sleeps ?w1 @ map (\<lambda>i. 2 ^ i) [retry_count + 1..<retry_count + 1 + (k - 1)]"
      and lt: "int retry_count < max_retries self"
  proof -
    from ih obtain k where k: "1 \<le> k" "int k \<le> max 0 (max_retries self - int (retry_count + 1)) + 1"
      "requests (snd ?retry) = requests ?w1 @ replicate k events"
      "sleeps (snd ?retry) = sleeps ?w1 @ map (\<lambda>i. 2 ^ i) [retry_count + 1..<retry_count + 1 + (k - 1)]"
      by blast
    have "[retry_count..<retry_count + k] = retry_count # [retry_count + 1..<retry_count + 1 + (k - 1)]"
      using k(1) by (simp add: upt_conv_Cons)
    then have "sleeps (snd ?retry) = sleeps w @ map (\<lambda>i. 2 ^ i) [retry_count..<retry_count + (Suc k - 1)]"
      using k(4) by simp
    moreover have "requests (snd ?retry) = requests w @ replicate (Suc k) events"
      using k(3) by (simp add: replicate_app_Cons_same)
    moreover have "int (Suc k) \<le> max 0 (max_retries self - int retry_count) + 1"
      using k(2) lt by simp
    ultimately show ?thesis by (intro exI [of _ "Suc k"]) simp
  qed
  show ?case
  proof (cases "net (length (requests w)) events")
    case (Response status_code body js)
    show ?thesis
    proof (cases "status_code = 200")
      case True
      then show ?thesis using Response stop by (cases js) simp_all
    next
      case False
      show ?thesis
      proof (cases "status_code \<ge> 500 \<and> int retry_count < max_retries self")
        case True
        then show ?thesis
          using Response False again [OF "1.IH"(1) [OF Response False True]] by simp
      next
        case no: False
        then show ?thesis using Response False stop by auto
      qed
    qed
  next
    case Timeout
    show ?thesis
    proof (cases "int retry_count < max_retries self")
      case True
      then show ?thesis using Timeout again [OF "1.IH"(2) [OF Timeout True]] by simp
    next
      case False
      then show ?thesis using Timeout stop by simp
    qed
  next
    case (ConnectionError e)
    then show ?thesis using stop by simp
  next
    case (RequestException e)
    then show ?thesis using stop by simp
  next
    case (OtherException e)
    then show ?thesis using stop by simp
  qed
qed


lemma send_single_order_attempts:
  "\<exists>k. 1 \<le> k \<and> int k \<le> max 0 (webhook_max_retries self - int retry_count) + 1 \<and>
       requests (snd (send_single_order self net order' retry_count w))
         = requests w @ replicate k order' \<and>
       sleeps (snd (send_single_order self net order' retry_count w))
         = sleeps w @ map (\<lambda>i. 2 ^ i) [retry_count..<retry_count + (k - 1)]"
proof (induction self net order' retry_count w rule: send_single_order.induct)
  case (1 self net order' retry_count w)
  let ?w1 = "w\<lparr>requests := requests w @ [order'], sleeps := sleeps w @ [2 ^ retry_count]\<rparr>"
  let ?retry = "send_single_order self net order' (retry_count + 1) ?w1"
  have stop: "\<exists>k. 1 \<le> k \<and> int k \<le> max 0 (webhook_max_retries self - int retry_count) + 1 \<and>
       requests (w\<lparr>requests := requests w @ [order']\<rparr>) = requests w @ replicate k order' \<and>
       sleeps (w\<lparr>requests := requests w @ [order']\<rparr>)
         = sleeps w @ map (\<lambda>i. 2 ^ i) [retry_count..<retry_count + (k - 1)]"
    by (rule exI [of _ 1]) simp
  have again: "\<exists>k. 1 \<le> k \<and> int k \<le> max 0 (webhook_max_retries self - int retry_count) + 1 \<and>
       requests (snd ?retry) = requests w @ replicate k order' \<and>
       sleeps (snd ?retry) = sleeps w @ map (\<lambda>i. 2 ^ i) [retry_count..<retry_count + (k - 1)]"
    if ih: "\<exists>k. 1 \<le> k \<and> int k \<le> max 0 (webhook_max_retries self - int (retry_count + 1)) + 1 \<and>
       requests (snd ?retry) = requests ?w1 @ replicate k order' \<and>
       sleeps (snd ?retry) = sleeps ?w1 @ map (\<lambda>i. 2 ^ i) [retry_count + 1..<retry_count + 1 + (k - 1)]"
      and lt: "int retry_count < webhook_max_retries self"
  proof -
    from ih obtain k where k: "1 \<le> k" "int k \<le> max 0 (webhook_max_retries self - int (retry_count + 1)) + 1"
      "requests (snd ?retry) = requests ?w1 @ replicate k order'"
      "sleeps (snd ?retry) = sleeps ?w1 @ map (\<lambda>i. 2 ^ i) [retry_count + 1..<retry_count + 1 + (k - 1)]"
      by blast
    have "[retry_count..<retry_count + k] = retry_count # [retry_count + 1..<retry_count + 1 + (k - 1)]"
      using k(1) by (simp add: upt_conv_Cons)
    then have "sleeps (snd ?retry) = sleeps w @ map (\<lambda>i. 2 ^ i) [retry_count..<retry_count + (Suc k - 1)]"
      using k(4) by simp
    moreover have "requests (snd ?retry) = requests w @ replicate (Suc k) order'"
      using k(3) by (simp add: replicate_app_Cons_same)
    moreover have "int (Suc k) \<le> max 0 (webhook_max_retries self - int retry_count) + 1"
      using k(2) lt by simp
    ultimately show ?thesis by (intro exI [of _ "Suc k"]) simp
  qed
  show ?case
  proof (cases "net (length (requests w)) order'")
    case (Response status_code body js)
    show ?thesis
    proof (cases "status_code \<in> set [200, 201]")
      case True
      then show ?thesis using Response stop by simp
    next
      case False
      show ?thesis
      proof (cases "status_code \<ge> 500 \<and> int retry_count < webhook_max_retries self")
        case True
        then show ?thesis
          using Response False again [OF "1.IH"(1) [OF Response False True]] by simp
      next
        case no: False
        then show ?thesis using Response False stop by auto
      qed
    qed
  next
    case Timeout
    show ?thesis
    proof (cases "int retry_count < webhook_max_retries self")
      case True
      then show ?thesis using Timeout again [OF "1.IH"(2) [OF Timeout True]] by simp
    next
      case False
      then show ?thesis using Timeout stop by simp
    qed
  next
    case (ConnectionError e)
    then show ?thesis using stop by simp
  next
    case (RequestException e)
    then show ?thesis using stop by simp
  next
    case (OtherException e)
    then show ?thesis using stop by simp
  qed
qed


lemma send_batch_timeouts:
  "(\<forall>i<k. net (length (requests w) + i) events = Timeout) \<Longrightarrow>
   int (retry_count + k) \<le> max_retries self \<Longrightarrow>
   send_batch_to_supabase self net events retry_count w =
   send_batch_to_supabase self net events (retry_count + k)
     (w\<lparr>requests := requests w @ replicate k events,
        sleeps := sleeps w @ map (\<lambda>i. 2 ^ i) [retry_count..<retry_count + k]\<rparr>)"
proof (induction k arbitrary: retry_count w)
  case 0
  then show ?case by simp
next
  case (Suc k)
  let ?w1 = "w\<lparr>requests := requests w @ [events], sleeps := sleeps w @ [2 ^ retry_count]\<rparr>"
  have first: "net (length (requests w)) events = Timeout"
    using Suc.prems(1) by (metis add.right_neutral zero_less_Suc)
  have lt: "int retry_count < max_retries self"
    using Suc.prems(2) by simp
  have step: "send_batch_to_supabase self net events retry_count w
                = send_batch_to_supabase self net events (retry_count + 1) ?w1"
    using first lt by simp
  have later: "\<forall>i<k. net (length (requests ?w1) + i) events = Timeout"
    using Suc.prems(1) by (auto dest: spec [of _ "Suc i" for i])
  have le: "int (retry_count + 1 + k) \<le> max_retries self"
    using Suc.prems(2) by simp
  have "[retry_count..<retry_count + Suc k] = retry_count # [retry_count + 1..<retry_count + 1 + k]"
    by (simp add: upt_conv_Cons)
  then show ?case
    using Suc.IH [OF later le] step by (simp add: replicate_app_Cons_same)
qed


lemma send_single_order_timeouts:
  "(\<forall>i<k. net (length (requests w) + i) order' = Timeout) \<Longrightarrow>
   int (retry_count + k) \<le> webhook_max_retries self \<Longrightarrow>
   send_single_order self net order' retry_count w =
   send_single_order self net order' (retry_count + k)
     (w\<lparr>requests := requests w @ replicate k order',
        sleeps := sleeps w @ map (\<lambda>i. 2 ^ i) [retry_count..<retry_count + k]\<rparr>)"
proof (induction k arbitrary: retry_count w)
  case 0
  then show ?case by simp
next
  case (Suc k)
  let ?w1 = "w\<lparr>requests := requests w @ [order'], sleeps := sleeps w @ [2 ^ retry_count]\<rparr>"
  have first: "net (length (requests w)) order' = Timeout"
    using Suc.prems(1) by (metis add.right_neutral zero_less_Suc)
  have lt: "int retry_count < webhook_max_retries self"
    using Suc.prems(2) by simp
  have step: "send_single_order self net order' retry_count w
                = send_single_order self net order' (retry_count + 1) ?w1"
    using first lt by simp
  have later: "\<forall>i<k. net (length (requests ?w1) + i) order' = Timeout"
    using Suc.prems(1) by (auto dest: spec [of _ "Suc i" for i])
  have le: "int (retry_count + 1 + k) \<le> webhook_max_retries self"
    using Suc.prems(2) by simp
  have "[retry_count..<retry_count + Suc k] = retry_count # [retry_count + 1..<retry_count + 1 + k]"
    by (simp add: upt_conv_Cons)
  then show ?case
    using Suc.IH [OF later le] step by (simp add: replicate_app_Cons_same)
qed

text \<open>
  Claim C9. For every endpoint, body and starting world, a delivery call started with
  retry count 0 returns after \<open>k\<close> requests of the same body, with
  \<open>1 \<le> k \<le> max 0 maxRetries + 1\<close>, and \<open>k - 1\<close> waits in between: at most \<open>maxRetries\<close>
  retries beyond the first attempt, in both clients. Both functions are total
  (their recursion is proved to terminate).
\<close>

theorem retry_attempts_bounded:
  "(\<exists>k. 1 \<le> k \<and> int k \<le> max 0 (max_retries self) + 1 \<and>
        requests (snd (send_batch_to_supabase self net events 0 w)) = requests w @ replicate k events \<and>
        sleeps (snd (send_batch_to_supabase self net events 0 w))
          = sleeps w @ map (\<lambda>i. 2 ^ i) [0..<k - 1]) \<and>
   (\<exists>k. 1 \<le> k \<and> int k \<le> max 0 (webhook_max_retries self') + 1 \<and>
        requests (snd (send_single_order self' net' order' 0 w')) = requests w' @ replicate k order' \<and>
        sleeps (snd (send_single_order self' net' order' 0 w'))
          = sleeps w' @ map (\<lambda>i. 2 ^ i) [0..<k - 1])"
  using send_batch_attempts [of self 0 net events w]
        send_single_order_attempts [of self' 0 net' order' w']
  by simp

theorem retry_attempts_bounded_witness:
  "(\<exists>k. 1 \<le> k \<and> int k \<le> 4 \<and>
        requests (snd (send_batch_to_supabase service0 (always Timeout) [''ev''] 0 world0))
          = replicate k [''ev''] \<and>
        sleeps (snd (send_batch_to_supabase service0 (always Timeout) [''ev''] 0 world0))
          = map (\<lambda>i. 2 ^ i) [0..<k - 1]) \<and>
   (\<exists>k. 1 \<le> k \<and> int k \<le> 4 \<and>
        requests (snd (send_single_order webhook0 (always (Response 503 ''busy'' None)) ''ord'' 0 world0))
          = replicate k ''ord'' \<and>
        sleeps (snd (send_single_order webhook0 (always (Response 503 ''busy'' None)) ''ord'' 0 world0))
          = map (\<lambda>i. 2 ^ i) [0..<k - 1])"
  using retry_attempts_bounded [of service0 "always Timeout" "[''ev'']" world0
          webhook0 "always (Response 503 ''busy'' None)" "''ord''" world0]
  by (simp add: service0_def webhook0_def world0_def)

text \<open>
  Claim C1 fails as stated: with three retries left, a connection error that is not a
  timeout ends the delivery after one request and no wait, in both clients.
\<close>

theorem connection_failure_not_retried:
  "0 < max_retries service0 \<and>
   always (ConnectionError ''refused'') 0 [''ev''] = ConnectionError ''refused'' \<and>
   send_batch_to_supabase service0 (always (ConnectionError ''refused'')) [''ev''] 0 world0
     = ((False, ''Connection error: refused'', empty_response), \<lparr>requests = [[''ev'']], sleeps = []\<rparr>) \<and>
   0 < webhook_max_retries webhook0 \<and>
   send_single_order webhook0 (always (ConnectionError ''refused'')) ''ord'' 0 world0
     = ((False, ''Exception: refused''), \<lparr>requests = [''ord''], sleeps = []\<rparr>)"
  by (simp add: service0_def webhook0_def world0_def always_def)

text \<open>
  Claim C1, amended. When the first \<open>k \<le> maxRetries\<close> attempts of a delivery time out,
  the client has posted the same body \<open>k\<close> times, waited \<open>2 ^ i\<close> after the attempt of
  index \<open>i\<close>, and goes on with retry count \<open>k\<close>. If the next attempt times out as well
  and no retry is left (\<open>k = maxRetries\<close>), the delivery fails with the message
  \<open>Timeout after <timeout>s\<close>. If the next attempt fails with a connection error that is
  not a timeout, the delivery fails at once, whatever retries are left, with the cause in
  the message and without a further wait.
\<close>

theorem timeout_retry_backoff:
  "((\<forall>i<k. net (length (requests w) + i) events = Timeout) \<and> int k \<le> max_retries self \<longrightarrow>
      send_batch_to_supabase self net events 0 w
        = send_batch_to_supabase self net events k (backoff events k w) \<and>
      (net (length (requests w) + k) events = Timeout \<and> int k = max_retries self \<longrightarrow>
         send_batch_to_supabase self net events 0 w
           = ((False, ''Timeout after '' @ str_int (timeout self) @ ''s'', empty_response),
              (backoff events k w)\<lparr>requests := requests w @ replicate (Suc k) events\<rparr>)) \<and>
      (\<forall>e. net (length (requests w) + k) events = ConnectionError e \<longrightarrow>
         send_batch_to_supabase self net events 0 w
           = ((False, ''Connection error: '' @ e, empty_response),
              (backoff events k w)\<lparr>requests := requests w @ replicate (Suc k) events\<rparr>))) \<and>
   ((\<forall>i<k'. net' (length (requests w') + i) order' = Timeout) \<and> int k' \<le> webhook_max_retries self' \<longrightarrow>
      send_single_order self' net' order' 0 w'
        = send_single_order self' net' order' k' (backoff order' k' w') \<and>
      (net' (length (requests w') + k') order' = Timeout \<and> int k' = webhook_max_retries self' \<longrightarrow>
         send_single_order self' net' order' 0 w'
           = ((False, ''Timeout after '' @ str_int (webhook_timeout self') @ ''s''),
              (backoff order' k' w')\<lparr>requests := requests w' @ replicate (Suc k') order'\<rparr>)) \<and>
      (\<forall>e. net' (length (requests w') + k') order' = ConnectionError e \<longrightarrow>
         send_single_order self' net' order' 0 w'
           = ((False, ''Exception: '' @ e),
              (backoff order' k' w')\<lparr>requests := requests w' @ replicate (Suc k') order'\<rparr>)))"
proof (intro conjI impI allI)
  assume h: "(\<forall>i<k. net (length (requests w) + i) events = Timeout) \<and> int k \<le> max_retries self"
  then show pre: "send_batch_to_supabase self net events 0 w
        = send_batch_to_supabase self net events k (backoff events k w)"
    using send_batch_timeouts [of k net w events 0 self] by (simp add: backoff_def)
  have len: "length (requests (backoff events k w)) = length (requests w) + k"
    by (simp add: backoff_def)
  have app: "requests (backoff events k w) @ [events] = requests w @ replicate (Suc k) events"
    by (simp add: backoff_def replicate_append_same)
  { assume "net (length (requests w) + k) events = Timeout \<and> int k = max_retries self"
    then show "send_batch_to_supabase self net events 0 w
           = ((False, ''Timeout after '' @ str_int (timeout self) @ ''s'', empty_response),
              (backoff events k w)\<lparr>requests := requests w @ replicate (Suc k) events\<rparr>)"
      using pre len app by simp }
  { fix e assume "net (length (requests w) + k) events = ConnectionError e"
    then show "send_batch_to_supabase self net events 0 w
           = ((False, ''Connection error: '' @ e, empty_response),
              (backoff events k w)\<lparr>requests := requests w @ replicate (Suc k) events\<rparr>)"
      using pre len app by simp }
next
  assume h: "(\<forall>i<k'. net' (length (requests w') + i) order' = Timeout) \<and> int k' \<le> webhook_max_retries self'"
  then show pre: "send_single_order self' net' order' 0 w'
        = send_single_order self' net' order' k' (backoff order' k' w')"
    using send_single_order_timeouts [of k' net' w' order' 0 self'] by (simp add: backoff_def)
  have len: "length (requests (backoff order' k' w')) = length (requests w') + k'"
    by (simp add: backoff_def)
  have app: "requests (backoff order' k' w') @ [order'] = requests w' @ replicate (Suc k') order'"
    by (simp add: backoff_def replicate_append_same)
  { assume "net' (length (requests w') + k') order' = Timeout \<and> int k' = webhook_max_retries self'"
    then show "send_single_order self' net' order' 0 w'
           = ((False, ''Timeout after '' @ str_int (webhook_timeout self') @ ''s''),
              (backoff order' k' w')\<lparr>requests := requests w' @ replicate (Suc k') order'\<rparr>)"
      using pre len app by simp }
  { fix e assume "net' (length (requests w') + k') order' = ConnectionError e"
    then show "send_single_order self' net' order' 0 w'
           = ((False, ''Exception: '' @ e),
              (backoff order' k' w')\<lparr>requests := requests w' @ replicate (Suc k') order'\<rparr>)"
      using pre len app by simp }
qed

theorem timeout_retry_backoff_witness:
  "send_batch_to_supabase service0 (always Timeout) [''ev''] 0 world0
     = ((False, ''Timeout after 30s'', empty_response),
        \<lparr>requests = [[''ev''], [''ev''], [''ev''], [''ev'']], sleeps = [1, 2, 4]\<rparr>) \<and>
   send_single_order webhook0 (scripted [Timeout, Timeout] (ConnectionError ''refused'')) ''ord'' 0 world0
     = ((False, ''Exception: refused''), \<lparr>requests = [''ord'', ''ord'', ''ord''], sleeps = [1, 2]\<rparr>)"
proof -
  have t: "str_int 30 = ''30''" by code_simp
  have u: "[0..<3] = [0, 1, 2]" "[0..<2] = [0, 1]"
    "replicate 3 [''ev''] = [[''ev''], [''ev''], [''ev'']]" "replicate 2 ''ord'' = [''ord'', ''ord'']"
    by code_simp+
  have s: "\<forall>i<2. scripted [Timeout, Timeout] (ConnectionError ''refused'') (length (requests (world0 :: string world)) + i) ''ord'' = Timeout"
    by (simp add: scripted_def world0_def less_Suc_eq numeral_2_eq_2)
  show ?thesis
    using timeout_retry_backoff [where k = 3 and net = "always Timeout" and w = world0
        and events = "[''ev'']" and self = service0 and k' = 2
        and net' = "scripted [Timeout, Timeout] (ConnectionError ''refused'')"
        and w' = world0 and order' = "''ord''" and self' = webhook0] s
    by (simp add: t u backoff_def always_def scripted_def world0_def service0_def webhook0_def)
qed

section \<open>Properties of the batch dispatcher\<close>

lemma concat_chunks_take:
  "concat (map (\<lambda>k. take b (drop (k * b) xs)) [0..<m]) = take (m * b) xs"
proof (induction m)
  case 0
  then show ?case by simp
next
  case (Suc m)
  have "take (m * b) xs @ take b (drop (m * b) xs) = take (m * b + b) xs"
    by (simp add: take_add)
  then show ?case using Suc by (simp add: add.commute)
qed

lemma ceil_div_cover:
  assumes "0 < (b::nat)"
  shows "n \<le> ((n + b - 1) div b) * b"
proof -
  have "n + b - 1 = ((n + b - 1) div b) * b + (n + b - 1) mod b" by simp
  moreover have "(n + b - 1) mod b < b" using assms by simp
  ultimately show ?thesis by linarith
qed

lemma ceil_div_tight:
  assumes "0 < (b::nat)" "k + 1 < (n + b - 1) div b"
  shows "(k + 1) * b < n"
proof -
  have "(k + 2) * b \<le> ((n + b - 1) div b) * b"
    using assms(2) by (intro mult_le_mono1) simp
  also have "\<dots> \<le> n + b - 1" by simp
  finally show ?thesis using assms(1) by (simp add: algebra_simps)
qed

lemma ceil_div_last:
  assumes "0 < (b::nat)" "0 < n"
  shows "((n + b - 1) div b - 1) * b < n"
proof -
  have "b \<le> n + b - 1" using assms by linarith
  then have "0 < (n + b - 1) div b" using assms(1) by (simp add: div_greater_zero_iff)
  then obtain m where m: "(n + b - 1) div b = Suc m"
    by (cases "(n + b - 1) div b") auto
  have "((n + b - 1) div b) * b \<le> n + b - 1" by simp
  then have "Suc m * b \<le> n + b - 1"
    by (simp only: m)
  then have "m * b + b \<le> n + b - 1" by (simp add: add.commute)
  then have "m * b < n" using assms by linarith
  then show ?thesis using m by simp
qed

lemma chunk_events_pos:
  assumes "0 < batch_size self"
  shows "chunk_events self events =
           Inr (map (\<lambda>k. take (nat (batch_size self)) (drop (k * nat (batch_size self)) events))
                  [0..<(length events + nat (batch_size self) - 1) div nat (batch_size self)])"
  using assms by (simp add: chunk_events_def py_range_def comp_def)

lemma process_batches_error [simp]:
  "process_batches fp self net ibs (Inl e, w) = (Inl e, w)"
  by (cases ibs) simp_all

lemma process_batch_world:
  "snd (process_batch fp self net (i, b) (acc, w)) = snd (send_batch_to_supabase self net b 0 w)"
  by (cases acc; cases "send_batch_to_supabase self net b 0 w")
     (auto simp: process_batch_def simp del: send_batch_to_supabase.simps split: sum.splits)




lemma py_add_int: "py_add fp (NInt a) (NInt b) = Inr (NInt (a + b))"
  by (simp add: py_add_def)


lemma int_or_absent_get:
  "int_or_absent d key \<Longrightarrow> py_get (JObj d) key (JInt 0) = Inr (JInt (count_of d key))"
  by (auto simp: int_or_absent_def py_get_def count_of_def split: option.splits json.splits)

lemma messages_ok_extend:
  assumes "messages_ok d"
  shows "(case py_get (JObj d) ''details'' (JObj []) of Inl e \<Rightarrow> Inl e | Inr details \<Rightarrow>
          (case py_get details ''error_messages'' JNull of Inl e \<Rightarrow> Inl e | Inr error_messages \<Rightarrow>
             if json_truthy error_messages then
               (case py_iter error_messages of
                  Inl e \<Rightarrow> Inl e
                | Inr items \<Rightarrow> Inr (a, b, errs @ items))
             else Inr (a, b, errs)))
         = Inr (a, b, errs @ messages_of d)"
  using assms
  by (auto simp: messages_ok_def messages_of_def py_get_def py_iter_def
      split: option.splits json.splits)

lemma apply_summary_typed:
  assumes "typed_summary (JObj d)"
  shows "apply_summary fp (JObj d) (NInt s, NInt e, errs)
           = Inr (NInt (s + (count_of d ''created'' + count_of d ''updated'')),
                  NInt (e + count_of d ''errors''), errs @ messages_of d)"
proof -
  have c: "py_get (JObj d) ''created'' (JInt 0) = Inr (JInt (count_of d ''created''))"
    and u: "py_get (JObj d) ''updated'' (JInt 0) = Inr (JInt (count_of d ''updated''))"
    and k: "py_get (JObj d) ''skipped'' (JInt 0) = Inr (JInt (count_of d ''skipped''))"
    and r: "py_get (JObj d) ''errors'' (JInt 0) = Inr (JInt (count_of d ''errors''))"
    and m: "messages_ok d"
    using assms by (simp_all add: typed_summary_def int_or_absent_get)
  show ?thesis
    unfolding apply_summary_def
    by (simp add: c u k r add_sum_to_count_def add_to_count_def py_add_int messages_ok_extend [OF m])
qed

lemma process_batch_typed:
  assumes "send_batch_to_supabase self net batch 0 w = ((True, message, JObj d), w')"
    and "d \<noteq> []" and "typed_summary (JObj d)"
  shows "process_batch fp self net (i, batch) ((NInt s, NInt e, errs), w)
           = (Inr (NInt (s + (count_of d ''created'' + count_of d ''updated'')),
                   NInt (e + count_of d ''errors''), errs @ messages_of d), w')"
  using assms
  by (simp add: process_batch_def apply_summary_typed del: send_batch_to_supabase.simps)

lemma process_batch_empty_body:
  assumes "send_batch_to_supabase self net batch 0 w = ((True, message, rd), w')"
    and "\<not> json_truthy rd"
  shows "process_batch fp self net (i, batch) ((NInt s, e, errs), w)
           = (Inr (NInt (s + int (length batch)), e, errs), w')"
  using assms
  by (simp add: process_batch_def py_add_int del: send_batch_to_supabase.simps)

lemma send_batch_ok:
  assumes "net (length (requests w)) b = Response 200 t js"
  shows "send_batch_to_supabase self net b 0 w
           = ((True, ''Success: '' @ str_int 200, (case js of None \<Rightarrow> empty_response | Some r \<Rightarrow> r)),
              w\<lparr>requests := requests w @ [b]\<rparr>)"
  using assms by (cases js) simp_all

lemma process_batches_all_200:
  assumes "\<forall>n b. \<exists>t js. net n b = Response 200 t js"
    and "fst (process_batches fp self net ibs (Inr acc, w)) = Inr acc'"
  shows "requests (snd (process_batches fp self net ibs (Inr acc, w))) = requests w @ map snd ibs"
  using assms(2)
proof (induction ibs arbitrary: acc w)
  case Nil
  then show ?case by simp
next
  case (Cons ib rest)
  obtain i b where ib: "ib = (i, b)" by (cases ib)
  obtain t js where "net (length (requests w)) b = Response 200 t js"
    using assms(1) by blast
  then have "snd (send_batch_to_supabase self net b 0 w) = w\<lparr>requests := requests w @ [b]\<rparr>"
    using send_batch_ok [of net w b t js self] by (simp del: send_batch_to_supabase.simps)
  then have w1: "snd (process_batch fp self net ib (acc, w)) = w\<lparr>requests := requests w @ [b]\<rparr>"
    using ib by (simp add: process_batch_world del: send_batch_to_supabase.simps)
  obtain r1 where st: "process_batch fp self net ib (acc, w) = (r1, w\<lparr>requests := requests w @ [b]\<rparr>)"
    using w1 by (cases "process_batch fp self net ib (acc, w)") simp
  show ?case
  proof (cases r1)
    case (Inl e)
    then show ?thesis using Cons.prems st by simp
  next
    case (Inr acc1)
    then have "fst (process_batches fp self net rest (Inr acc1, w\<lparr>requests := requests w @ [b]\<rparr>)) = Inr acc'"
      using Cons.prems st by simp
    from Cons.IH [OF this] show ?thesis using st Inr ib by simp
  qed
qed

lemma typed_summary_obj: "typed_summary js \<Longrightarrow> \<exists>d. js = JObj d"
  by (cases js) (simp_all add: typed_summary_def)

lemma process_batches_typed:
  assumes "\<forall>n b. \<exists>t js. net n b = Response 200 t js \<and> typed_body js"
  shows "\<exists>s' e' errs'. fst (process_batches fp self net ibs (Inr (NInt s, NInt e, errs), w))
           = Inr (NInt s', NInt e', errs')"
proof (induction ibs arbitrary: s e errs w)
  case Nil
  then show ?case by simp
next
  case (Cons ib rest)
  obtain i b where ib: "ib = (i, b)" by (cases ib)
  obtain t js where net: "net (length (requests w)) b = Response 200 t js" and ty: "typed_body js"
    using assms by blast
  let ?w1 = "w\<lparr>requests := requests w @ [b]\<rparr>"
  let ?rd = "case js of None \<Rightarrow> empty_response | Some r \<Rightarrow> r"
  have send: "send_batch_to_supabase self net b 0 w = ((True, ''Success: '' @ str_int 200, ?rd), ?w1)"
    using net by (rule send_batch_ok)
  have "\<exists>s1 e1 errs1. process_batch fp self net ib ((NInt s, NInt e, errs), w)
          = (Inr (NInt s1, NInt e1, errs1), ?w1)"
  proof (cases "json_truthy ?rd")
    case False
    then show ?thesis using process_batch_empty_body [OF send False] ib by blast
  next
    case True
    then obtain r where js: "js = Some r" by (cases js) (simp_all add: empty_response_def)
    then have "typed_summary r" using ty by (simp add: typed_body_def)
    then obtain d where r: "r = JObj d" and td: "typed_summary (JObj d)"
      using typed_summary_obj by blast
    have ne: "d \<noteq> []" using True js r by simp
    have "send_batch_to_supabase self net b 0 w = ((True, ''Success: '' @ str_int 200, JObj d), ?w1)"
      using send js r by simp
    from process_batch_typed [OF this ne td] show ?thesis using ib by blast
  qed
  then obtain s1 e1 errs1 where
    "process_batch fp self net ib ((NInt s, NInt e, errs), w) = (Inr (NInt s1, NInt e1, errs1), ?w1)"
    by blast
  then show ?case using Cons.IH [of s1 e1 errs1 ?w1] by simp
qed






lemma send_tracking_events_run:
  assumes "events \<noteq> []" and "chunk_events self events = Inr cs"
  shows "send_tracking_events fp self net events w
     = (case process_batches fp self net (enumerate 0 cs) (Inr (NInt 0, NInt 0, []), w) of
          (Inl e, w') \<Rightarrow> (Inl e, w')
        | (Inr (success_count, error_count, errs), w') \<Rightarrow>
            (Inr \<lparr>total = int (length events), successful = success_count,
                  failed = error_count, errors = errs\<rparr>, w'))"
  using assms by (simp add: send_tracking_events_def)

lemma send_tracking_events_Inr:
  assumes "events \<noteq> []" and "chunk_events self events = Inr cs"
    and "process_batches fp self net (enumerate 0 cs) (Inr (NInt 0, NInt 0, []), w)
           = (Inr (s, f, errs), w')"
  shows "send_tracking_events fp self net events w
     = (Inr \<lparr>total = int (length events), successful = s, failed = f, errors = errs\<rparr>, w')"
  using assms by (simp add: send_tracking_events_run)

lemma send_tracking_events_Inl:
  assumes "events \<noteq> []" and "chunk_events self events = Inr cs"
    and "process_batches fp self net (enumerate 0 cs) (Inr (NInt 0, NInt 0, []), w) = (Inl e, w')"
  shows "send_tracking_events fp self net events w = (Inl e, w')"
  using assms by (simp add: send_tracking_events_run)

lemma send_tracking_events_returns:
  assumes "events \<noteq> []" and "chunk_events self events = Inr cs"
    and "fst (send_tracking_events fp self net events w) = Inr res"
  shows "\<exists>s f errs. process_batches fp self net (enumerate 0 cs) (Inr (NInt 0, NInt 0, []), w)
            = (Inr (s, f, errs), snd (send_tracking_events fp self net events w)) \<and>
          res = \<lparr>total = int (length events), successful = s, failed = f, errors = errs\<rparr>"
  using assms
  by (auto simp: send_tracking_events_run split: prod.splits sum.splits)

lemma map_snd_enumerate: "map snd (enumerate n xs) = xs"
  by (simp add: enumerate_eq_zip)

lemma enumerate_split:
  assumes "i < length cs"
  shows "enumerate 0 cs = take i (enumerate 0 cs) @ (i, cs ! i) # drop (Suc i) (enumerate 0 cs)"
proof -
  have "i < length (enumerate 0 cs)" using assms by simp
  then have "enumerate 0 cs
      = take i (enumerate 0 cs) @ (enumerate 0 cs ! i) # drop (Suc i) (enumerate 0 cs)"
    by (rule id_take_nth_drop)
  moreover have "enumerate 0 cs ! i = (i, cs ! i)" using assms by (simp add: nth_enumerate_eq)
  ultimately show ?thesis by simp
qed

text \<open>
  Claim C8. With a batch size of 100, 250 payloads are cut into the three batches
  \<open>events[0:100]\<close>, \<open>events[100:200]\<close>, \<open>events[200:250]\<close>, of 100, 100 and 50 items.
  When the endpoint answers every request with status 200, a dispatch that returns a
  result has posted exactly these three batches, in this order, and it does return one
  when every response body is no JSON or a summary of the wire contract. In general, for
  a positive batch size the batches concatenate to the input, every batch but the last
  has the full size, and the last one is not empty and not longer than the batch size.
\<close>

theorem dispatch_250_by_100:
  assumes "batch_size self = 100" and "length events = 250"
    and "\<forall>n b. \<exists>t js. net n b = Response 200 t js"
  shows "chunk_events self events
           = Inr [take 100 events, take 100 (drop 100 events), drop 200 events] \<and>
         map length [take 100 events, take 100 (drop 100 events), drop 200 events] = [100, 100, 50] \<and>
         (\<forall>res. fst (send_tracking_events fp self net events w) = Inr res \<longrightarrow>
            requests (snd (send_tracking_events fp self net events w))
              = requests w @ [take 100 events, take 100 (drop 100 events), drop 200 events]) \<and>
         ((\<forall>n b. \<exists>t js. net n b = Response 200 t js \<and> typed_body js) \<longrightarrow>
            (\<exists>res w'. send_tracking_events fp self net events w = (Inr res, w') \<and>
               requests w' = requests w @ [take 100 events, take 100 (drop 100 events), drop 200 events])) \<and>
         (0 < batch_size self' \<longrightarrow>
            (\<exists>cs. chunk_events self' events' = Inr cs \<and> concat cs = events' \<and>
               (\<forall>i. i + 1 < length cs \<longrightarrow> length (cs ! i) = nat (batch_size self')) \<and>
               (cs \<noteq> [] \<longrightarrow> 0 < length (last cs) \<and> length (last cs) \<le> nat (batch_size self'))))"
proof (intro conjI impI allI)
  let ?cs = "[take 100 events, take 100 (drop 100 events), drop 200 events]"
  have three: "[0..<3] = [0, 1, 2]" by code_simp
  show chunks: "chunk_events self events = Inr ?cs"
    using assms(1,2) by (simp add: chunk_events_pos three)
  show "map length ?cs = [100, 100, 50]"
    using assms(2) by simp
  have ne: "events \<noteq> []" using assms(2) by auto
  have posted: "requests (snd (send_tracking_events fp self net events w)) = requests w @ ?cs"
    if "fst (send_tracking_events fp self net events w) = Inr res" for res
  proof -
    from send_tracking_events_returns [OF ne chunks that]
    obtain s f errs where run: "process_batches fp self net (enumerate 0 ?cs) (Inr (NInt 0, NInt 0, []), w)
            = (Inr (s, f, errs), snd (send_tracking_events fp self net events w))"
      by blast
    then have "fst (process_batches fp self net (enumerate 0 ?cs) (Inr (NInt 0, NInt 0, []), w))
        = Inr (s, f, errs)" by simp
    from process_batches_all_200 [OF assms(3) this]
    show ?thesis using run by (simp add: map_snd_enumerate del: enumerate_simps)
  qed
  { fix res assume "fst (send_tracking_events fp self net events w) = Inr res"
    then show "requests (snd (send_tracking_events fp self net events w)) = requests w @ ?cs"
      by (rule posted) }
  { assume typed: "\<forall>n b. \<exists>t js. net n b = Response 200 t js \<and> typed_body js"
    from process_batches_typed [OF typed, of fp self "enumerate 0 ?cs" 0 0 "[]" w]
    obtain s' e' errs' w' where
      "process_batches fp self net (enumerate 0 ?cs) (Inr (NInt 0, NInt 0, []), w)
         = (Inr (NInt s', NInt e', errs'), w')"
      by (metis prod.collapse)
    from send_tracking_events_Inr [OF ne chunks this]
    have ret: "send_tracking_events fp self net events w
       = (Inr \<lparr>total = int (length events), successful = NInt s', failed = NInt e', errors = errs'\<rparr>, w')" .
    then have "requests w' = requests w @ ?cs"
      using posted [of "\<lparr>total = int (length events), successful = NInt s', failed = NInt e', errors = errs'\<rparr>"]
      by simp
    then show "\<exists>res w'. send_tracking_events fp self net events w = (Inr res, w') \<and>
               requests w' = requests w @ ?cs"
      using ret by blast }
next
  assume pos: "0 < batch_size self'"
  let ?b = "nat (batch_size self')"
  let ?m = "(length events' + ?b - 1) div ?b"
  let ?cs = "map (\<lambda>k. take ?b (drop (k * ?b) events')) [0..<?m]"
  have b: "0 < ?b" using pos by simp
  have cs: "chunk_events self' events' = Inr ?cs" using pos by (rule chunk_events_pos)
  have cat: "concat ?cs = events'"
    using ceil_div_cover [OF b, of "length events'"] by (simp add: concat_chunks_take)
  have full: "length (?cs ! i) = ?b" if "i + 1 < length ?cs" for i
  proof -
    have "(i + 1) * ?b < length events'"
      using that ceil_div_tight [OF b, of i "length events'"] by simp
    then have "?b \<le> length events' - i * ?b" by (simp add: algebra_simps)
    then show ?thesis using that by (simp add: min_def)
  qed
  have lst: "0 < length (last ?cs) \<and> length (last ?cs) \<le> ?b" if "?cs \<noteq> []"
  proof -
    have m: "0 < ?m" using that by simp
    then have n: "0 < length events'" by (cases "length events' = 0") (use b in auto)
    have "last ?cs = take ?b (drop ((?m - 1) * ?b) events')"
      using m by (simp add: last_map)
    then show ?thesis using ceil_div_last [OF b n] b by simp
  qed
  show "\<exists>cs. chunk_events self' events' = Inr cs \<and> concat cs = events' \<and>
               (\<forall>i. i + 1 < length cs \<longrightarrow> length (cs ! i) = nat (batch_size self')) \<and>
               (cs \<noteq> [] \<longrightarrow> 0 < length (last cs) \<and> length (last cs) \<le> nat (batch_size self'))"
    using cs cat full lst by blast
qed

theorem dispatch_250_by_100_witness:
  "chunk_events service0 (replicate 250 ''ev'')
     = Inr [replicate 100 ''ev'', replicate 100 ''ev'', replicate 50 ''ev''] \<and>
   (\<exists>res w'. send_tracking_events float0 service0 (always (Response 200 ''ok'' None)) (replicate 250 ''ev'') world0
        = (Inr res, w') \<and>
      requests w' = [replicate 100 ''ev'', replicate 100 ''ev'', replicate 50 ''ev''])"
proof -
  have net: "\<forall>n (b :: string list). \<exists>t js. always (Response 200 ''ok'' None) n b = Response 200 t js"
    by (simp add: always_def)
  have typed: "\<forall>n (b :: string list). \<exists>t js. always (Response 200 ''ok'' None) n b = Response 200 t js
      \<and> typed_body js"
    by (simp add: always_def typed_body_def)
  have bs: "batch_size service0 = 100" by (simp add: service0_def)
  have len: "length (replicate 250 ''ev'') = 250" by simp
  have w: "requests (world0 :: string list world) = []" by (simp add: world0_def)
  have t: "take 100 (replicate 250 ''ev'') = replicate 100 ''ev''"
    "take 100 (drop 100 (replicate 250 ''ev'')) = replicate 100 ''ev''"
    "drop 200 (replicate 250 ''ev'') = replicate 50 ''ev''" by simp_all
  note inst = dispatch_250_by_100 [OF bs len net, of float0 world0 service0 "[] :: string list"]
  have a: "chunk_events service0 (replicate 250 ''ev'')
           = Inr [take 100 (replicate 250 ''ev''), take 100 (drop 100 (replicate 250 ''ev'')),
                  drop 200 (replicate 250 ''ev'')]"
    using inst by (rule conjunct1)
  have b: "\<exists>res w'. send_tracking_events float0 service0 (always (Response 200 ''ok'' None))
              (replicate 250 ''ev'') world0 = (Inr res, w') \<and>
            requests w' = requests (world0 :: string list world) @
              [take 100 (replicate 250 ''ev''), take 100 (drop 100 (replicate 250 ''ev'')),
               drop 200 (replicate 250 ''ev'')]"
    using inst typed by blast
  show ?thesis using a b unfolding t w by simp
qed





















section \<open>Properties of the mappers\<close>

lemma build_item_key:
  "build_item r = Inr (k, item) \<Longrightarrow> k = seller_sku_of r"
  by (auto simp: build_item_def seller_sku_of_def getitem_def get_default_def
      split: option.splits sum.splits)

lemma build_sku_loop_keys:
  "build_sku_loop rows acc = Inr d \<Longrightarrow>
     set (map fst d) = set (map fst acc) \<union> set (map seller_sku_of rows) \<and>
     (distinct (map fst acc) \<longrightarrow> distinct (map fst d))"
proof (induction rows arbitrary: acc)
  case Nil
  then show ?case by simp
next
  case (Cons r rest)
  from Cons.prems obtain k item where it: "build_item r = Inr (k, item)"
    and loop: "build_sku_loop rest (AList.update k item acc) = Inr d"
    by (auto split: sum.splits)
  have k: "k = seller_sku_of r" using it by (rule build_item_key)
  have keys: "set (map fst (AList.update k item acc)) = insert k (set (map fst acc))"
    using AList.dom_update [of k item acc] by simp
  have dist: "distinct (map fst acc) \<Longrightarrow> distinct (map fst (AList.update k item acc))"
    by (rule AList.distinct_update)
  show ?case using Cons.IH [OF loop] keys dist k by auto
qed

lemma build_sku_loop_append:
  "build_sku_loop (xs @ ys) acc =
     (case build_sku_loop xs acc of Inl e \<Rightarrow> Inl e | Inr a \<Rightarrow> build_sku_loop ys a)"
  by (induction xs arbitrary: acc) (auto split: sum.splits)

lemma build_sku_loop_keeps:
  "build_sku_loop rows acc = Inr d \<Longrightarrow> k \<notin> set (map seller_sku_of rows) \<Longrightarrow>
     map_of d k = map_of acc k"
proof (induction rows arbitrary: acc)
  case Nil
  then show ?case by simp
next
  case (Cons r rest)
  from Cons.prems(1) obtain k' item where it: "build_item r = Inr (k', item)"
    and loop: "build_sku_loop rest (AList.update k' item acc) = Inr d"
    by (auto split: sum.splits)
  have "k' = seller_sku_of r" using it by (rule build_item_key)
  then have ne: "k' \<noteq> k" using Cons.prems(2) by auto
  have "map_of d k = map_of (AList.update k' item acc) k"
    using Cons.IH [OF loop] Cons.prems(2) by simp
  then show ?case using ne by (simp add: AList.update_conv')
qed

lemma build_sku_loop_last_wins:
  assumes "build_sku_loop (pre @ r # post) acc = Inr d"
    and "build_item r = Inr (k, item)"
    and "k \<notin> set (map seller_sku_of post)"
  shows "map_of d k = Some item"
proof -
  from assms(1) obtain a where a: "build_sku_loop pre acc = Inr a"
    and rest: "build_sku_loop (r # post) a = Inr d"
    by (auto simp: build_sku_loop_append split: sum.splits)
  from rest assms(2) have "build_sku_loop post (AList.update k item a) = Inr d" by simp
  then have "map_of d k = map_of (AList.update k item a) k"
    using assms(3) by (rule build_sku_loop_keeps)
  then show ?thesis by (simp add: AList.update_conv')
qed

text \<open>
  Claim C3, amended. Every row of a group writes one entry of the line-item dictionary
  under the key \<open>str(row['seller_sku'])\<close>: the keys of the result are exactly the seller
  SKUs of the rows, each once, so the number of line items is the number of distinct
  seller SKUs of the group. It is the number of rows exactly when no two rows of the group
  share a seller SKU; of the rows that share one, the entry of the last is the one kept.
\<close>

theorem sku_dict_distinct_skus:
  assumes "build_sku_dict grp = Inr d"
  shows "distinct (map fst d) \<and>
         set (map fst d) = set (map seller_sku_of grp) \<and>
         length d = card (set (map seller_sku_of grp)) \<and>
         (length d = length grp \<longleftrightarrow> distinct (map seller_sku_of grp)) \<and>
         (\<forall>pre r post item.
            grp = pre @ r # post \<and> build_item r = Inr (seller_sku_of r, item) \<and>
            seller_sku_of r \<notin> set (map seller_sku_of post)
            \<longrightarrow> map_of d (seller_sku_of r) = Some item)"
proof -
  have loop: "build_sku_loop grp [] = Inr d" using assms by (simp add: build_sku_dict_def)
  have keys: "set (map fst d) = set (map seller_sku_of grp)" and dist: "distinct (map fst d)"
    using build_sku_loop_keys [OF loop] by simp_all
  have len: "length d = card (set (map seller_sku_of grp))"
    using distinct_card [OF dist] keys by simp
  have iff: "length d = length grp \<longleftrightarrow> distinct (map seller_sku_of grp)"
    using len card_distinct [of "map seller_sku_of grp"] distinct_card [of "map seller_sku_of grp"]
    by auto
  have last: "map_of d (seller_sku_of r) = Some item"
    if "grp = pre @ r # post" "build_item r = Inr (seller_sku_of r, item)"
       "seller_sku_of r \<notin> set (map seller_sku_of post)" for pre r post item
    using build_sku_loop_last_wins [of pre r post "[]" d "seller_sku_of r" item] loop that by simp
  show ?thesis using dist keys len iff last by blast
qed

text \<open>
  Claim C3 fails as stated: two rows of one order with the same seller SKU give a
  dictionary with one line item, the one of the second row.
\<close>

theorem duplicate_sku_overwritten:
  "build_sku_dict [item_row ''A'' 1 ''i1'', item_row ''A'' 3 ''i3'']
     = Inr [(''A'', PDict [(''quantity'', PInt 3), (''name'', PStr ''Widget''),
                           (''market_place_match_id'', PStr ''M1''),
                           (''order_item_id'', PStr ''i3'')])] \<and>
   length [(''A'', PDict [(''quantity'', PInt 3), (''name'', PStr ''Widget''),
                           (''market_place_match_id'', PStr ''M1''),
                           (''order_item_id'', PStr ''i3'')])]
     \<noteq> length [item_row ''A'' 1 ''i1'', item_row ''A'' 3 ''i3'']"
  by (simp add: build_sku_dict_def build_item_def item_row_def getitem_def get_default_def)

lemma item_row_item:
  "build_item (item_row sku q item_id)
     = Inr (sku, PDict [(''quantity'', PInt q), (''name'', PStr ''Widget''),
                        (''market_place_match_id'', PStr ''M1''),
                        (''order_item_id'', PStr item_id)])"
  by (simp add: build_item_def item_row_def getitem_def get_default_def)

lemma item_row_sku: "seller_sku_of (item_row sku q item_id) = sku"
  by (simp add: seller_sku_of_def item_row_def get_default_def)

theorem sku_dict_distinct_skus_witness:
  "build_sku_dict [item_row ''A'' 1 ''i1'', item_row ''B'' 2 ''i2'', item_row ''A'' 3 ''i3'']
     = Inr [(''A'', PDict [(''quantity'', PInt 3), (''name'', PStr ''Widget''),
                           (''market_place_match_id'', PStr ''M1''),
                           (''order_item_id'', PStr ''i3'')]),
            (''B'', PDict [(''quantity'', PInt 2), (''name'', PStr ''Widget''),
                           (''market_place_match_id'', PStr ''M1''),
                           (''order_item_id'', PStr ''i2'')])] \<and>
   card (set (map seller_sku_of
        [item_row ''A'' 1 ''i1'', item_row ''B'' 2 ''i2'', item_row ''A'' 3 ''i3''])) = 2 \<and>
   \<not> distinct (map seller_sku_of
        [item_row ''A'' 1 ''i1'', item_row ''B'' 2 ''i2'', item_row ''A'' 3 ''i3''])"
proof -
  let ?g = "[item_row ''A'' 1 ''i1'', item_row ''B'' 2 ''i2'', item_row ''A'' 3 ''i3'']"
  let ?d = "[(''A'', PDict [(''quantity'', PInt 3), (''name'', PStr ''Widget''),
                           (''market_place_match_id'', PStr ''M1''),
                           (''order_item_id'', PStr ''i3'')]),
            (''B'', PDict [(''quantity'', PInt 2), (''name'', PStr ''Widget''),
                           (''market_place_match_id'', PStr ''M1''),
                           (''order_item_id'', PStr ''i2'')])]"
  have run: "build_sku_dict ?g = Inr ?d"
    by (simp add: build_sku_dict_def item_row_item)
  have "length ?d = card (set (map seller_sku_of ?g))"
    and "length ?d = length ?g \<longleftrightarrow> distinct (map seller_sku_of ?g)"
    using sku_dict_distinct_skus [OF run] by blast+
  then show ?thesis using run by simp
qed

lemma add_optional_fields_lookup:
  "map_of (add_optional_fields r fs event) k =
     (if k \<in> set fs \<and> present_non_blank r k then Some (PStr (trimmed r k)) else map_of event k)"
proof (induction fs arbitrary: event)
  case Nil
  then show ?case by simp
next
  case (Cons f rest)
  have cond: "(\<not> isna (get_default r f CNone) \<and> get_default r f CNone \<noteq> CNone
                \<and> py_strip (str_cell (get_default r f CNone)) \<noteq> []) = present_non_blank r f"
    by (auto simp: present_non_blank_def get_default_def split: option.splits)
  show ?case
  proof (cases "present_non_blank r f")
    case True
    then have "\<not> isna (get_default r f CNone) \<and> get_default r f CNone \<noteq> CNone
                \<and> py_strip (str_cell (get_default r f CNone)) \<noteq> []"
      using cond by blast
    then have "add_optional_fields r (f # rest) event
        = add_optional_fields r rest (AList.update f (PStr (trimmed r f)) event)"
      unfolding add_optional_fields.simps Let_def trimmed_def by (rule if_P)
    then show ?thesis using Cons.IH True by (auto simp: AList.update_conv')
  next
    case False
    then have "\<not> (\<not> isna (get_default r f CNone) \<and> get_default r f CNone \<noteq> CNone
                \<and> py_strip (str_cell (get_default r f CNone)) \<noteq> [])"
      using cond by blast
    then have "add_optional_fields r (f # rest) event = add_optional_fields r rest event"
      unfolding add_optional_fields.simps Let_def by (rule if_not_P)
    then show ?thesis using Cons.IH False by auto
  qed
qed

lemma present_non_blank_trimmed: "present_non_blank r k \<Longrightarrow> trimmed r k \<noteq> []"
  by (auto simp: present_non_blank_def trimmed_def get_default_def split: option.splits)

lemma build_tracking_event_shape:
  assumes "build_tracking_event pd r = Inr event"
  shows "\<exists>base. event = add_optional_fields r optional_fields base \<and>
           map fst base = [''marketplace_order_id'', ''marketplace'', ''company_id'',
                           ''event_status'', ''event_timestamp'']"
  using assms
  by (auto simp: build_tracking_event_def Let_def split: sum.splits option.splits error.splits if_splits)

lemma build_webhook_payload_promise:
  assumes "build_webhook_payload pd order_id first_row sku_dict = Inr p"
  shows "map_of p ''shipping_promise_date''
           = Some (opt_pval (to_iso8601_clt pd (get_default first_row ''shipping_promise_date'' CNone)))"
  using assms
  by (auto simp: build_webhook_payload_def Let_def split: sum.splits option.splits)

text \<open>
  Claim C4, amended. In the shipment-tracking mapper each of the optional fields
  \<open>event_location\<close>, \<open>courier_name\<close>, \<open>tracking_number\<close> and \<open>notes\<close> is in the
  payload exactly when the row has it with a value that is neither missing nor blank, and
  then holds the trimmed text of the value; otherwise the key is absent, and the field is
  never null or the empty string. In the order mapper the key \<open>shipping_promise_date\<close> is
  always in the payload, with the formatted date or, when there is none, with null.
\<close>

theorem optional_fields_emitted:
  "(build_tracking_event pd r = Inr event \<and> f \<in> set optional_fields \<longrightarrow>
      map_of event f = (if present_non_blank r f then Some (PStr (trimmed r f)) else None) \<and>
      map_of event f \<noteq> Some PNull \<and> map_of event f \<noteq> Some (PStr [])) \<and>
   (build_webhook_payload pd order_id first_row sku_dict = Inr p \<longrightarrow>
      map_of p ''shipping_promise_date''
        = Some (opt_pval (to_iso8601_clt pd (get_default first_row ''shipping_promise_date'' CNone))))"
proof (intro conjI impI)
  assume h: "build_tracking_event pd r = Inr event \<and> f \<in> set optional_fields"
  then have b: "build_tracking_event pd r = Inr event" by (rule conjunct1)
  from build_tracking_event_shape [OF b]
  obtain base where both: "event = add_optional_fields r optional_fields base \<and>
      map fst base = [''marketplace_order_id'', ''marketplace'', ''company_id'',
                           ''event_status'', ''event_timestamp'']" ..
  have ev: "event = add_optional_fields r optional_fields base" using both by (rule conjunct1)
  have keys: "map fst base = [''marketplace_order_id'', ''marketplace'', ''company_id'',
                           ''event_status'', ''event_timestamp'']" using both by (rule conjunct2)
  have "f \<notin> set (map fst base)"
    using h unfolding keys by (auto simp: optional_fields_def)
  then have none: "map_of base f = None"
    by (simp add: map_of_eq_None_iff)
  show look: "map_of event f = (if present_non_blank r f then Some (PStr (trimmed r f)) else None)"
    using h none unfolding ev by (simp add: add_optional_fields_lookup)
  show "map_of event f \<noteq> Some PNull" unfolding look by simp
  show "map_of event f \<noteq> Some (PStr [])"
    unfolding look using present_non_blank_trimmed [of r f] by auto
next
  assume "build_webhook_payload pd order_id first_row sku_dict = Inr p"
  then show "map_of p ''shipping_promise_date''
        = Some (opt_pval (to_iso8601_clt pd (get_default first_row ''shipping_promise_date'' CNone)))"
    by (rule build_webhook_payload_promise)
qed

lemma item_row_payload:
  "build_webhook_payload pandas0 (CStr ''A1'') (item_row ''A'' 1 ''i1'') []
     = Inr [(''order'', PStr ''A1''), (''shipping_id'', PStr ''77''), (''status'', PStr ''paid''),
            (''shipping_status'', PStr ''ready''), (''logistic_type'', PStr ''flex''),
            (''market_place'', PStr ''meli''),
            (''order_created_at'', PStr ''2024-01-01T00:00:00-03:00''),
            (''shipping_promise_date'', PNull), (''sku'', PDict [])]"
  by code_simp

lemma item_row_no_promise: "item_row ''A'' 1 ''i1'' ''shipping_promise_date'' = None"
  by (simp add: item_row_def)

text \<open>
  Claim C4 fails as stated: a row of the order flow without a shipping promise date gives
  a payload that carries \<open>shipping_promise_date\<close> with the value null.
\<close>

theorem shipping_promise_date_null:
  "item_row ''A'' 1 ''i1'' ''shipping_promise_date'' = None \<and>
   build_webhook_payload pandas0 (CStr ''A1'') (item_row ''A'' 1 ''i1'') []
     = Inr [(''order'', PStr ''A1''), (''shipping_id'', PStr ''77''), (''status'', PStr ''paid''),
            (''shipping_status'', PStr ''ready''), (''logistic_type'', PStr ''flex''),
            (''market_place'', PStr ''meli''),
            (''order_created_at'', PStr ''2024-01-01T00:00:00-03:00''),
            (''shipping_promise_date'', PNull), (''sku'', PDict [])]"
  using item_row_payload item_row_no_promise by simp

lemma tracking_row_event:
  "build_tracking_event pandas0 (tracking_row (CTimestamp new_year) (CStr ''   ''))
     = Inr [(''marketplace_order_id'', PStr ''A1''), (''marketplace'', PStr ''meli''),
            (''company_id'', PStr ''c12585ee-c8f4-4103-b7f0-37bd62401a65''),
            (''event_status'', PStr ''dispatched''),
            (''event_timestamp'', PStr ''2024-01-01T00:00:00+00:00''),
            (''courier_name'', PStr ''Correos''), (''tracking_number'', PStr ''42'')]"
  by code_simp

lemma tracking_row_fields:
  "present_non_blank (tracking_row (CTimestamp new_year) (CStr ''   '')) ''courier_name''"
  "trimmed (tracking_row (CTimestamp new_year) (CStr ''   '')) ''courier_name'' = ''Correos''"
  "\<not> present_non_blank (tracking_row (CTimestamp new_year) (CStr ''   '')) ''notes''"
  "\<not> present_non_blank (tracking_row (CTimestamp new_year) (CStr ''   '')) ''event_location''"
  by code_simp+

theorem optional_fields_emitted_witness:
  "map_of [(''marketplace_order_id'', PStr ''A1''), (''marketplace'', PStr ''meli''),
            (''company_id'', PStr ''c12585ee-c8f4-4103-b7f0-37bd62401a65''),
            (''event_status'', PStr ''dispatched''),
            (''event_timestamp'', PStr ''2024-01-01T00:00:00+00:00''),
            (''courier_name'', PStr ''Correos''), (''tracking_number'', PStr ''42'')] ''courier_name''
     = Some (PStr (trimmed (tracking_row (CTimestamp new_year) (CStr ''   '')) ''courier_name'')) \<and>
   map_of [(''order'', PStr ''A1''), (''shipping_id'', PStr ''77''), (''status'', PStr ''paid''),
            (''shipping_status'', PStr ''ready''), (''logistic_type'', PStr ''flex''),
            (''market_place'', PStr ''meli''),
            (''order_created_at'', PStr ''2024-01-01T00:00:00-03:00''),
            (''shipping_promise_date'', PNull), (''sku'', PDict [])] ''shipping_promise_date''
     = Some (opt_pval (to_iso8601_clt pandas0
          (get_default (item_row ''A'' 1 ''i1'') ''shipping_promise_date'' CNone)))"
proof -
  have f: "''courier_name'' \<in> set optional_fields" by (simp add: optional_fields_def)
  show ?thesis
    using optional_fields_emitted [of pandas0 "tracking_row (CTimestamp new_year) (CStr ''   '')"
        "[(''marketplace_order_id'', PStr ''A1''), (''marketplace'', PStr ''meli''),
            (''company_id'', PStr ''c12585ee-c8f4-4103-b7f0-37bd62401a65''),
            (''event_status'', PStr ''dispatched''),
            (''event_timestamp'', PStr ''2024-01-01T00:00:00+00:00''),
            (''courier_name'', PStr ''Correos''), (''tracking_number'', PStr ''42'')]"
        "''courier_name''" "CStr ''A1''" "item_row ''A'' 1 ''i1''" "[]"
        "[(''order'', PStr ''A1''), (''shipping_id'', PStr ''77''), (''status'', PStr ''paid''),
            (''shipping_status'', PStr ''ready''), (''logistic_type'', PStr ''flex''),
            (''market_place'', PStr ''meli''),
            (''order_created_at'', PStr ''2024-01-01T00:00:00-03:00''),
            (''shipping_promise_date'', PNull), (''sku'', PDict [])]"]
      tracking_row_event item_row_payload f tracking_row_fields(1)
    by simp
qed

lemma utc_offset: "iso_offset (Some 0) = ''+00:00''"
  by code_simp

lemma isoformat_utc:
  "isoformat sep Auto (tz_localize_utc ts) = iso_base sep ts @ iso_fraction ts @ ''+00:00''"
  using utc_offset by (simp add: isoformat_def tz_localize_utc_def iso_base_def iso_fraction_def)

lemma iso_fraction_zero:
  "ts_microsecond ts = 0 \<Longrightarrow> ts_nanosecond ts = 0 \<Longrightarrow> iso_fraction ts = []"
  by (simp add: iso_fraction_def)

lemma format_timestamp_naive:
  assumes "ts_tzinfo ts = None"
  shows "format_timestamp pd (CTimestamp ts)
           = Some (iso_base (CHR ''T'') ts @ iso_fraction ts @ ''+00:00'')"
  using assms by (simp add: format_timestamp_def isoformat_utc)

lemma format_timestamp_parsed:
  assumes "to_datetime pd (CStr s) = Some ts" "ts_tzinfo ts = None"
  shows "format_timestamp pd (CStr s)
           = Some (iso_base (CHR ''T'') ts @ iso_fraction ts @ ''+00:00'')"
  using assms by (simp add: format_timestamp_def isoformat_utc)

lemma to_iso8601_clt_naive:
  assumes "ts_tzinfo ts = None" "tz_localize_clt pd ts = Some ts'"
  shows "to_iso8601_clt pd (CTimestamp ts)
           = Some (iso_base (CHR ''T'') ts' @ iso_offset (ts_tzinfo ts'))"
  using assms by (simp add: to_iso8601_clt_def isoformat_def)

lemma to_iso8601_clt_parsed:
  assumes "to_datetime pd (CStr s) = Some ts" "ts_tzinfo ts = None" "tz_localize_clt pd ts = Some ts'"
  shows "to_iso8601_clt pd (CStr s)
           = Some (iso_base (CHR ''T'') ts' @ iso_offset (ts_tzinfo ts'))"
  using assms by (simp add: to_iso8601_clt_def isoformat_def)

lemma unparseable_none:
  assumes "to_datetime pd (CStr s) = None"
  shows "format_timestamp pd (CStr s) = None" "to_iso8601_clt pd (CStr s) = None"
  using assms by (simp_all add: format_timestamp_def to_iso8601_clt_def)

lemma build_tracking_event_bad_timestamp:
  assumes "format_timestamp pd v = None" "r ''event_timestamp'' = Some v"
  shows "\<exists>e. build_tracking_event pd r = Inl e"
proof (cases "getitem r ''event_status''")
  case (Inl e)
  then show ?thesis by (simp add: build_tracking_event_def)
next
  case st: (Inr event_status)
  show ?thesis
  proof (cases "getitem r ''marketplace''")
    case (Inl e)
    then show ?thesis using st by (simp add: build_tracking_event_def)
  next
    case mk: (Inr marketplace)
    have ts: "getitem r ''event_timestamp'' = Inr v"
      using assms(2) by (simp add: getitem_def)
    show ?thesis
    proof (cases "getitem r ''marketplace_order_id''")
      case (Inl e)
      then show ?thesis using st mk ts assms(1) by (simp add: build_tracking_event_def Let_def)
    next
      case (Inr order_id)
      then show ?thesis using st mk ts assms(1) by (simp add: build_tracking_event_def Let_def)
    qed
  qed
qed

lemma build_webhook_payload_bad_created:
  assumes "to_iso8601_clt pd v = None" "first_row ''order_created_at'' = Some v"
  shows "build_webhook_payload pd order_id first_row sku_dict
           = Inl (ValueError (''Missing required date field: order_created_at for order ''
                 @ str_cell order_id))"
  using assms by (simp add: build_webhook_payload_def get_default_def Let_def)

text \<open>
  Claim C5, amended. A timestamp without timezone, given as such or parsed from a string,
  is serialised by the shipment-tracking mapper as \<open>YYYY-MM-DDTHH:MM:SS\<close>, the fraction
  of the second when it is not zero, and the offset \<open>+00:00\<close>: at second-level precision
  when the fraction is zero. The order mapper serialises it as \<open>YYYY-MM-DDTHH:MM:SS\<close> and
  the offset of the timestamp that the localisation to the fixed timezone returns, when
  it returns one. A string that does not parse gives no text in either formatter; as
  \<open>event_timestamp\<close> it makes \<open>_build_tracking_event\<close> raise, and as
  \<open>order_created_at\<close> it makes \<open>_build_webhook_payload\<close> raise \<open>ValueError\<close>: no payload.
\<close>

theorem timestamps_serialised:
  "(ts_tzinfo ts = None \<longrightarrow>
      format_timestamp pd (CTimestamp ts)
        = Some (iso_base (CHR ''T'') ts @ iso_fraction ts @ ''+00:00'') \<and>
      (ts_microsecond ts = 0 \<and> ts_nanosecond ts = 0 \<longrightarrow>
         format_timestamp pd (CTimestamp ts) = Some (iso_base (CHR ''T'') ts @ ''+00:00'')) \<and>
      (to_datetime pd (CStr s) = Some ts \<longrightarrow>
         format_timestamp pd (CStr s)
           = Some (iso_base (CHR ''T'') ts @ iso_fraction ts @ ''+00:00'')) \<and>
      (tz_localize_clt pd ts = Some ts' \<longrightarrow>
         to_iso8601_clt pd (CTimestamp ts)
           = Some (iso_base (CHR ''T'') ts' @ iso_offset (ts_tzinfo ts')) \<and>
         (to_datetime pd (CStr s) = Some ts \<longrightarrow>
            to_iso8601_clt pd (CStr s)
              = Some (iso_base (CHR ''T'') ts' @ iso_offset (ts_tzinfo ts'))))) \<and>
   (to_datetime pd (CStr u) = None \<longrightarrow>
      format_timestamp pd (CStr u) = None \<and> to_iso8601_clt pd (CStr u) = None \<and>
      (r ''event_timestamp'' = Some (CStr u) \<longrightarrow> (\<exists>e. build_tracking_event pd r = Inl e)) \<and>
      (first_row ''order_created_at'' = Some (CStr u) \<longrightarrow>
         build_webhook_payload pd order_id first_row sku_dict
           = Inl (ValueError (''Missing required date field: order_created_at for order ''
                    @ str_cell order_id))))"
proof (intro conjI impI)
  assume n: "ts_tzinfo ts = None"
  show a: "format_timestamp pd (CTimestamp ts)
        = Some (iso_base (CHR ''T'') ts @ iso_fraction ts @ ''+00:00'')"
    using n by (rule format_timestamp_naive)
  { assume "ts_microsecond ts = 0 \<and> ts_nanosecond ts = 0"
    then show "format_timestamp pd (CTimestamp ts) = Some (iso_base (CHR ''T'') ts @ ''+00:00'')"
      using a by (simp add: iso_fraction_zero) }
  { assume "to_datetime pd (CStr s) = Some ts"
    then show "format_timestamp pd (CStr s)
           = Some (iso_base (CHR ''T'') ts @ iso_fraction ts @ ''+00:00'')"
      using n by (rule format_timestamp_parsed) }
  { assume l: "tz_localize_clt pd ts = Some ts'"
    show "to_iso8601_clt pd (CTimestamp ts)
           = Some (iso_base (CHR ''T'') ts' @ iso_offset (ts_tzinfo ts'))"
      using n l by (rule to_iso8601_clt_naive)
    { assume "to_datetime pd (CStr s) = Some ts"
      then show "to_iso8601_clt pd (CStr s)
              = Some (iso_base (CHR ''T'') ts' @ iso_offset (ts_tzinfo ts'))"
        using n l by (rule to_iso8601_clt_parsed) } }
next
  assume u: "to_datetime pd (CStr u) = None"
  show f: "format_timestamp pd (CStr u) = None" using u by (rule unparseable_none(1))
  show c: "to_iso8601_clt pd (CStr u) = None" using u by (rule unparseable_none(2))
  { assume "r ''event_timestamp'' = Some (CStr u)"
    with f show "\<exists>e. build_tracking_event pd r = Inl e"
      by (rule build_tracking_event_bad_timestamp) }
  { assume "first_row ''order_created_at'' = Some (CStr u)"
    with c show "build_webhook_payload pd order_id first_row sku_dict
           = Inl (ValueError (''Missing required date field: order_created_at for order ''
                    @ str_cell order_id))"
      by (rule build_webhook_payload_bad_created) }
qed

text \<open>
  Claim C5 fails as stated: the shipment-tracking mapper serialises a timestamp without
  timezone that has 500 microseconds with six fractional digits, not at second-level
  precision.
\<close>

theorem fractional_seconds_kept:
  "ts_tzinfo half_milli = None \<and> ts_microsecond half_milli = 500 \<and>
   format_timestamp pandas0 (CTimestamp half_milli) = Some ''2024-01-01T00:00:00.000500+00:00''"
  by code_simp

theorem timestamps_serialised_witness:
  "format_timestamp pandas0 (CTimestamp new_year) = Some ''2024-01-01T00:00:00+00:00'' \<and>
   format_timestamp pandas0 (CStr ''2024-01-01T00:00:00'') = Some ''2024-01-01T00:00:00+00:00'' \<and>
   to_iso8601_clt pandas0 (CTimestamp new_year) = Some ''2024-01-01T00:00:00-03:00'' \<and>
   to_iso8601_clt pandas0 (CStr ''2024-01-01T00:00:00'') = Some ''2024-01-01T00:00:00-03:00'' \<and>
   format_timestamp pandas0 (CStr ''garbage'') = None \<and>
   to_iso8601_clt pandas0 (CStr ''garbage'') = None \<and>
   (\<exists>e. build_tracking_event pandas0 (tracking_row (CStr ''garbage'') CNone) = Inl e) \<and>
   build_webhook_payload pandas0 (CStr ''A1'')
       ((item_row ''A'' 1 ''i1'')(''order_created_at'' \<mapsto> CStr ''garbage'')) []
     = Inl (ValueError ''Missing required date field: order_created_at for order A1'')"
proof -
  let ?ts' = "new_year\<lparr>ts_tzinfo := Some (- 180)\<rparr>"
  have e: "iso_base (CHR ''T'') new_year = ''2024-01-01T00:00:00''"
    "iso_base (CHR ''T'') ?ts' = ''2024-01-01T00:00:00''"
    "iso_offset (Some (- 180)) = ''-03:00''"
    "iso_fraction new_year = []"
    by code_simp+
  have h: "ts_tzinfo new_year = None" "ts_microsecond new_year = 0" "ts_nanosecond new_year = 0"
    by (simp_all add: new_year_def)
  have p: "to_datetime pandas0 (CStr ''2024-01-01T00:00:00'') = Some new_year"
    "to_datetime pandas0 (CStr ''garbage'') = None"
    "tz_localize_clt pandas0 new_year = Some ?ts'"
    by (simp_all add: pandas0_def parse_new_year_def localize_minus3_def)
  have r: "tracking_row (CStr ''garbage'') CNone ''event_timestamp'' = Some (CStr ''garbage'')"
    "((item_row ''A'' 1 ''i1'')(''order_created_at'' \<mapsto> CStr ''garbage'')) ''order_created_at''
       = Some (CStr ''garbage'')"
    by (simp_all add: tracking_row_def)
  note inst = timestamps_serialised [where ts = new_year and pd = pandas0
      and s = "''2024-01-01T00:00:00''" and ts' = ?ts' and u = "''garbage''"
      and r = "tracking_row (CStr ''garbage'') CNone"
      and first_row = "(item_row ''A'' 1 ''i1'')(''order_created_at'' \<mapsto> CStr ''garbage'')"
      and order_id = "CStr ''A1''" and sku_dict = "[]"]
  show ?thesis
    using inst h p r by (simp add: e)
qed

end
